theory Spec2Isabelle
  imports Complex_Main "HOL-Library.Char_ord" "HOL-Library.List_Lexorder"
begin

section \<open>JavaScript numbers\<close>

text \<open>
  A JavaScript number is a finite value, one of the two infinities, or NaN.  Finite values
  are embedded as reals (rounding is not modelled); every comparison with NaN is false.
\<close>

datatype number = NaN | NegInfinity | PosInfinity | Finite real

datatype error = InvalidLngLat | InvalidLatitude | TypeError

definition isNaN :: "number \<Rightarrow> bool" where
  "isNaN n = (case n of NaN \<Rightarrow> True | _ \<Rightarrow> False)"

text \<open>\<open>a > r\<close> and \<open>a < r\<close> for a number \<open>a\<close> and a finite constant \<open>r\<close>.\<close>

definition gt :: "number \<Rightarrow> real \<Rightarrow> bool" where
  "gt a r = (case a of NaN \<Rightarrow> False | NegInfinity \<Rightarrow> False | PosInfinity \<Rightarrow> True
             | Finite x \<Rightarrow> r < x)"

definition lt :: "number \<Rightarrow> real \<Rightarrow> bool" where
  "lt a r = (case a of NaN \<Rightarrow> False | NegInfinity \<Rightarrow> True | PosInfinity \<Rightarrow> False
             | Finite x \<Rightarrow> x < r)"

section \<open>LngLat (geo/lng\_lat.js)\<close>

record 'n LngLat =
  lng :: 'n
  lat :: 'n

text \<open>
  The constructor: NaN in either coordinate throws, then the fields are stored, then a
  latitude outside \<open>[-90, 90]\<close> throws.  The unary plus is the identity on numbers.
\<close>

definition LngLat_constructor :: "number \<Rightarrow> number \<Rightarrow> error + number LngLat" where
  "LngLat_constructor lng0 lat0 =
     (if isNaN lng0 \<or> isNaN lat0 then Inl InvalidLngLat
      else let this = \<lparr>lng = lng0, lat = lat0\<rparr>
           in if gt (lat this) 90 \<or> lt (lat this) (- 90) then Inl InvalidLatitude
              else Inr this)"

section \<open>Bearing normalisation (ui/camera.js)\<close>

text \<open>
  Modelled from the spec: \<open>util.wrap\<close> is not among the sources; the bearing is wrapped
  into the half-open range \<open>[min, max)\<close> by adding a multiple of \<open>max - min\<close>.
\<close>

definition wrap :: "real \<Rightarrow> real \<Rightarrow> real \<Rightarrow> real" where
  "wrap n mn mx = (let d = mx - mn in n - d * of_int \<lfloor>(n - mn) / d\<rfloor>)"

text \<open>
  \<open>_normalizeBearing\<close>: the two tests run one after the other on the updated bearing,
  against the distance \<open>diff\<close> computed once.
\<close>

definition normalizeBearing :: "real \<Rightarrow> real \<Rightarrow> real" where
  "normalizeBearing bearing0 currentBearing =
     (let bearing1 = wrap bearing0 (- 180) 180;
          diff = \<bar>bearing1 - currentBearing\<bar>;
          bearing2 = (if \<bar>bearing1 - 360 - currentBearing\<bar> < diff then bearing1 - 360 else bearing1);
          bearing3 = (if \<bar>bearing2 + 360 - currentBearing\<bar> < diff then bearing2 + 360 else bearing2)
      in bearing3)"

section \<open>Evented on a pooled-worker handle (util/evented.js)\<close>

text \<open>
  A handle carries the listener tables of \<open>Evented\<close>.  Listeners are callbacks of the
  application; they are identified by a value of type \<open>'l\<close>, and calling one is recorded in
  \<open>delivered\<close> with the event type and the data.  A handle has no evented parent.
\<close>

record ('l, 'a) handle =
  pooledWorkerId :: nat
  native :: nat
  listeners :: "string \<Rightarrow> 'l list"
  oneTimeListeners :: "string \<Rightarrow> 'l list"
  delivered :: "('l \<times> string \<times> 'a) list"

datatype outcome = Returned | Threw error

definition on :: "string \<Rightarrow> 'l \<Rightarrow> ('l, 'a) handle \<Rightarrow> ('l, 'a) handle" where
  "on ty listener h = h\<lparr>listeners := (listeners h)(ty := listeners h ty @ [listener])\<rparr>"

definition once :: "string \<Rightarrow> 'l \<Rightarrow> ('l, 'a) handle \<Rightarrow> ('l, 'a) handle" where
  "once ty listener h =
     h\<lparr>oneTimeListeners := (oneTimeListeners h)(ty := oneTimeListeners h ty @ [listener])\<rparr>"

definition off :: "string \<Rightarrow> 'l \<Rightarrow> ('l, 'a) handle \<Rightarrow> ('l, 'a) handle" where
  "off ty listener h =
     h\<lparr>listeners := (listeners h)(ty := remove1 listener (listeners h ty)),
       oneTimeListeners := (oneTimeListeners h)(ty := remove1 listener (oneTimeListeners h ty))\<rparr>"

definition listens :: "('l, 'a) handle \<Rightarrow> string \<Rightarrow> bool" where
  "listens h ty = (listeners h ty \<noteq> [] \<or> oneTimeListeners h ty \<noteq> [])"

text \<open>
  \<open>Evented.fire\<close>: every listener of the type is called in order, then every one-time
  listener, each of which is removed once called.  Without a listener nothing happens to
  the handle (an event whose type ends in \<open>error\<close> is printed to the console, which is not
  part of the state).
\<close>

definition Evented_fire :: "('l, 'a) handle \<Rightarrow> string \<Rightarrow> 'a \<Rightarrow> ('l, 'a) handle" where
  "Evented_fire h ty d =
     (if listens h ty
      then h\<lparr>delivered := delivered h @ map (\<lambda>l. (l, ty, d)) (listeners h ty @ oneTimeListeners h ty),
             oneTimeListeners :=
               (oneTimeListeners h)(ty := foldl (\<lambda>ls l. remove1 l ls) (oneTimeListeners h ty)
                                                (oneTimeListeners h ty))\<rparr>
      else h)"

section \<open>The worker pool, main thread (pooled\_worker/index.js with the native pool)\<close>

text \<open>
  A message is either a control message \<open>{type, data: {pooledWorkerId, bodyURL, options}}\<close>,
  which has no \<open>pooledWorkerId\<close> of its own, or a message \<open>{pooledWorkerId, type, data}\<close>
  addressed to a logical worker.
\<close>

datatype ('b, 'a) message =
    Control string nat 'b 'a
  | Addressed nat string 'a

fun message_pooledWorkerId :: "('b, 'a) message \<Rightarrow> nat option" where
  "message_pooledWorkerId (Control ty i body opts) = None"
| "message_pooledWorkerId (Addressed i ty d) = Some i"

text \<open>
  The module state: the real workers (each with the messages posted to it, in order), the
  rotation cursor, the registry of handles, and the configured \<open>workerCount\<close> (0 stands
  for a value that is absent or falsy).
\<close>

record ('b, 'a, 'l) pool =
  workerCount :: nat
  nativeWorkers :: "('b, 'a) message list list"
  nextNativeWorkerIndex :: nat
  pooledWorkers :: "('l, 'a) handle list"

definition initial_pool :: "nat \<Rightarrow> ('b, 'a, 'l) pool" where
  "initial_pool wc = \<lparr>workerCount = wc, nativeWorkers = [], nextNativeWorkerIndex = 0,
                       pooledWorkers = []\<rparr>"

text \<open>\<open>xs[i] = v\<close> for \<open>i\<close> up to the length of the array: overwrite or append.\<close>

definition array_set :: "'x list \<Rightarrow> nat \<Rightarrow> 'x \<Rightarrow> 'x list" where
  "array_set xs i v = (if i < length xs then xs[i := v] else xs @ [v])"

definition createNativeWorkers :: "('b, 'a, 'l) pool \<Rightarrow> ('b, 'a, 'l) pool" where
  "createNativeWorkers p =
     (let n = (if workerCount p = 0 then 3 else workerCount p)
      in p\<lparr>nativeWorkers := foldl (\<lambda>ws i. array_set ws i []) (nativeWorkers p) [0..<n]\<rparr>)"

text \<open>\<open>allocateNativeWorker\<close> returns the index of the chosen real worker.\<close>

definition allocateNativeWorker :: "('b, 'a, 'l) pool \<Rightarrow> nat \<times> ('b, 'a, 'l) pool" where
  "allocateNativeWorker p =
     (let p1 = (if nativeWorkers p = [] then createNativeWorkers p else p);
          nativeWorker = nextNativeWorkerIndex p1
      in (nativeWorker,
          p1\<lparr>nextNativeWorkerIndex :=
               (nextNativeWorkerIndex p1 + 1) mod length (nativeWorkers p1)\<rparr>))"

definition postMessage :: "nat \<Rightarrow> ('b, 'a) message \<Rightarrow> ('b, 'a, 'l) pool \<Rightarrow> ('b, 'a, 'l) pool" where
  "postMessage w m p = p\<lparr>nativeWorkers := (nativeWorkers p)[w := nativeWorkers p ! w @ [m]]\<rparr>"

definition createPooledWorker ::
  "'b \<Rightarrow> 'a \<Rightarrow> ('b, 'a, 'l) pool \<Rightarrow> ('l, 'a) handle \<times> ('b, 'a, 'l) pool" where
  "createPooledWorker body opts p =
     (let i = length (pooledWorkers p);
          (nativeWorker, p1) = allocateNativeWorker p;
          p2 = postMessage nativeWorker (Control ''createPooledWorker'' i body opts) p1;
          pooledWorker = \<lparr>pooledWorkerId = i, native = nativeWorker, listeners = (\<lambda>_. []),
                          oneTimeListeners = (\<lambda>_. []), delivered = []\<rparr>
      in (pooledWorker, p2\<lparr>pooledWorkers := array_set (pooledWorkers p2) i pooledWorker\<rparr>))"

text \<open>\<open>send\<close> of the handle registered under \<open>i\<close>.\<close>

definition send :: "('l, 'a) handle \<Rightarrow> string \<Rightarrow> 'a \<Rightarrow> ('b, 'a, 'l) pool \<Rightarrow> ('b, 'a, 'l) pool" where
  "send h ty d p = postMessage (native h) (Addressed (pooledWorkerId h) ty d) p"

text \<open>A run of allocations, collecting the handles returned.\<close>

fun allocations ::
  "('b \<times> 'a) list \<Rightarrow> ('b, 'a, 'l) pool \<Rightarrow> ('l, 'a) handle list \<times> ('b, 'a, 'l) pool" where
  "allocations [] p = ([], p)"
| "allocations ((body, opts) # rs) p =
     (let (h, p1) = createPooledWorker body opts p;
          (hs, p2) = allocations rs p1
      in (h # hs, p2))"

text \<open>
  \<open>Evented.fire.call(target, type, data)\<close> where \<open>target\<close> is a registry lookup: on
  \<open>undefined\<close> the first statement of \<open>fire\<close>, \<open>this.listens(type)\<close>, throws a TypeError
  before anything is assigned, so the state stays as it was.  A listener returns the
  outcome of the call together with the state it leaves.
\<close>

definition registry_lookup :: "'h list \<Rightarrow> nat option \<Rightarrow> 'h option" where
  "registry_lookup reg i =
     (case i of None \<Rightarrow> None | Some j \<Rightarrow> if j < length reg then Some (reg ! j) else None)"

text \<open>
  The message listener attached to every real worker on the main thread.  A control
  message has no \<open>pooledWorkerId\<close>, so its lookup is \<open>pooledWorkers[undefined]\<close>.
\<close>

definition main_listener ::
  "('b, 'a) message \<Rightarrow> ('b, 'a, 'l) pool \<Rightarrow> outcome \<times> ('b, 'a, 'l) pool" where
  "main_listener m p =
     (case m of
        Control ty i body opts \<Rightarrow> (Threw TypeError, p)
      | Addressed i ty d \<Rightarrow>
          (case registry_lookup (pooledWorkers p) (message_pooledWorkerId m) of
             None \<Rightarrow> (Threw TypeError, p)
           | Some h \<Rightarrow> (Returned, p\<lparr>pooledWorkers := (pooledWorkers p)[i := Evented_fire h ty d]\<rparr>)))"

section \<open>The worker pool, inside a real worker (pooled\_worker/worker\_index.js)\<close>

text \<open>
  The registry inside a real worker is an object keyed by the logical id.  Running the
  job body (\<open>importScripts\<close>, then \<open>self.exports.call(pooledWorker, options)\<close>) is code of
  the application: it is the parameter \<open>run_body\<close>, which may register listeners on the
  new handle.  \<open>outbox\<close> holds the messages posted back to the main thread; the field
  \<open>native\<close> of a handle is not used on this side.
\<close>

record ('b, 'a, 'l) worker_state =
  registry :: "nat \<rightharpoonup> ('l, 'a) handle"
  outbox :: "('b, 'a) message list"

definition worker_createPooledWorker ::
  "('b \<Rightarrow> 'a \<Rightarrow> ('l, 'a) handle \<Rightarrow> ('l, 'a) handle) \<Rightarrow> nat \<Rightarrow> 'b \<Rightarrow> 'a
   \<Rightarrow> ('b, 'a, 'l) worker_state \<Rightarrow> ('b, 'a, 'l) worker_state" where
  "worker_createPooledWorker run_body i bodyURL opts ws =
     (let pooledWorker = \<lparr>pooledWorkerId = i, native = 0, listeners = (\<lambda>_. []),
                          oneTimeListeners = (\<lambda>_. []), delivered = []\<rparr>
      in ws\<lparr>registry := (registry ws)(i \<mapsto> run_body bodyURL opts pooledWorker)\<rparr>)"

definition worker_listener ::
  "('b \<Rightarrow> 'a \<Rightarrow> ('l, 'a) handle \<Rightarrow> ('l, 'a) handle) \<Rightarrow> ('b, 'a) message
   \<Rightarrow> ('b, 'a, 'l) worker_state \<Rightarrow> outcome \<times> ('b, 'a, 'l) worker_state" where
  "worker_listener run_body m ws =
     (case m of
        Control ty i body opts \<Rightarrow>
          (if ty = ''createPooledWorker''
           then (Returned, worker_createPooledWorker run_body i body opts ws)
           else (Returned, ws))
      | Addressed i ty d \<Rightarrow>
          (case registry ws i of
             None \<Rightarrow> (Threw TypeError, ws)
           | Some h \<Rightarrow> (Returned, ws\<lparr>registry := (registry ws)(i \<mapsto> Evented_fire h ty d)\<rparr>)))"

section \<open>Points (point-geometry) and the Transform\<close>

record Point =
  px :: real
  py :: real

definition add :: "Point \<Rightarrow> Point \<Rightarrow> Point" where
  "add p q = \<lparr>px = px p + px q, py = py p + py q\<rparr>"

definition sub :: "Point \<Rightarrow> Point \<Rightarrow> Point" where
  "sub p q = \<lparr>px = px p - px q, py = py p - py q\<rparr>"

definition mult :: "Point \<Rightarrow> real \<Rightarrow> Point" where
  "mult p k = \<lparr>px = px p * k, py = py p * k\<rparr>"

definition mag :: "Point \<Rightarrow> real" where
  "mag p = sqrt (px p * px p + py p * py p)"

text \<open>
  Modelled from the spec: the Transform (geo/transform.js) is not among the sources.  It
  holds the camera state of section 3 of the specification; the zoom stays within
  \<open>[minZoom, maxZoom]\<close> and the pitch within \<open>[0, 60]\<close>, so assigning either clamps the
  value, and the bearing is unbounded.  Camera arithmetic is carried out over the reals.
\<close>

record Transform =
  center :: "real LngLat"
  zoom :: real
  bearing :: real
  pitch :: real
  width :: real
  height :: real
  renderWorldCopies :: bool
  lngRange :: "(real \<times> real) option"
  minZoom :: real
  maxZoom :: real

text \<open>Modelled from the spec: \<open>util.clamp\<close>, which is not among the sources.\<close>

definition clamp :: "real \<Rightarrow> real \<Rightarrow> real \<Rightarrow> real" where
  "clamp n mn mx = min mx (max mn n)"

definition set_zoom :: "real \<Rightarrow> Transform \<Rightarrow> Transform" where
  "set_zoom z tr = tr\<lparr>zoom := clamp z (minZoom tr) (maxZoom tr)\<rparr>"

definition set_pitch :: "real \<Rightarrow> Transform \<Rightarrow> Transform" where
  "set_pitch v tr = tr\<lparr>pitch := clamp v 0 60\<rparr>"

definition set_bearing :: "real \<Rightarrow> Transform \<Rightarrow> Transform" where
  "set_bearing b tr = tr\<lparr>bearing := b\<rparr>"

definition set_center :: "real LngLat \<Rightarrow> Transform \<Rightarrow> Transform" where
  "set_center l tr = tr\<lparr>center := l\<rparr>"

text \<open>
  Modelled from the spec: \<open>zoomScale\<close> is \<open>2^zoomDelta\<close>, \<open>scaleZoom\<close> is \<open>log2\<close>, and the
  scale of a Transform is the scale of its zoom.
\<close>

definition zoomScale :: "real \<Rightarrow> real" where
  "zoomScale z = 2 powr z"

definition scaleZoom :: "real \<Rightarrow> real" where
  "scaleZoom s = log 2 s"

definition scale :: "Transform \<Rightarrow> real" where
  "scale tr = zoomScale (zoom tr)"

text \<open>
  The projection methods of the Transform, the default easing \<open>util.ease\<close> and
  \<open>util.bezier\<close> are not among the sources either and the specification fixes no
  formula for them: they are parameters of the camera.
\<close>

record geo =
  project :: "Transform \<Rightarrow> real LngLat \<Rightarrow> Point"
  unproject :: "Transform \<Rightarrow> Point \<Rightarrow> real LngLat"
  pointLocation :: "Transform \<Rightarrow> Point \<Rightarrow> real LngLat"
  locationPoint :: "Transform \<Rightarrow> real LngLat \<Rightarrow> Point"
  centerPoint :: "Transform \<Rightarrow> Point"
  setLocationAtPoint :: "real LngLat \<Rightarrow> Point \<Rightarrow> Transform \<Rightarrow> Transform"
  util_ease :: "real \<Rightarrow> real"
  util_bezier :: "real \<Rightarrow> real \<Rightarrow> real \<Rightarrow> real \<Rightarrow> real \<Rightarrow> real"

text \<open>Modelled from the spec: linear interpolation (style-spec/util/interpolate).\<close>

definition interpolate :: "real \<Rightarrow> real \<Rightarrow> real \<Rightarrow> real" where
  "interpolate a b t = a * (1 - t) + b * t"

text \<open>\<open>LngLat.wrap\<close>, on a coordinate that is already a valid LngLat.\<close>

definition LngLat_wrap :: "real LngLat \<Rightarrow> real LngLat" where
  "LngLat_wrap l = \<lparr>lng = wrap (lng l) (- 180) 180, lat = lat l\<rparr>"

section \<open>Camera options, events and state (ui/camera.js)\<close>

text \<open>
  The padding of \<open>fitBounds\<close>: a number, an object with its keys and their values (a
  string, a boolean or an array has keys of its own and is such an object too), or
  \<open>null\<close> or \<open>undefined\<close>.
\<close>

datatype padding = PaddingNumber real | PaddingObject "(string \<times> real) list" | PaddingNullish

text \<open>
  The options object of \<open>jumpTo\<close>, \<open>easeTo\<close>, \<open>flyTo\<close> and \<open>fitBounds\<close>.  A property that is
  absent is \<open>None\<close>; the flags that are only tested for truth are booleans.  A center or
  an anchor is given by its coordinates, with a latitude within \<open>[-90, 90]\<close>, which
  \<open>LngLat.convert\<close> turns into a LngLat of its own without throwing; an offset is given
  by its two components.
\<close>

record options =
  opt_center :: "real LngLat option"
  opt_zoom :: "real option"
  opt_bearing :: "real option"
  opt_pitch :: "real option"
  opt_around :: "real LngLat option"
  opt_offset :: "Point option"
  opt_duration :: "real option"
  opt_easing :: "(real \<Rightarrow> real) option"
  opt_animate :: "bool option"
  opt_smoothEasing :: bool
  opt_noMoveStart :: bool
  opt_delayEndEvents :: "real option"
  opt_speed :: "real option"
  opt_curve :: "real option"
  opt_screenSpeed :: "real option"
  opt_minZoom :: "real option"
  opt_padding :: "padding option"
  opt_maxZoom :: "real option"
  opt_linear :: bool

definition no_options :: options where
  "no_options = \<lparr>opt_center = None, opt_zoom = None, opt_bearing = None, opt_pitch = None,
     opt_around = None, opt_offset = None, opt_duration = None, opt_easing = None,
     opt_animate = None, opt_smoothEasing = False, opt_noMoveStart = False,
     opt_delayEndEvents = None, opt_speed = None, opt_curve = None, opt_screenSpeed = None,
     opt_minZoom = None, opt_padding = None, opt_maxZoom = None, opt_linear = False\<rparr>"

datatype event = Movestart | Move | Moveend | Zoomstart | Zoom | Zoomend | Rotate
  | Pitchstart | Pitch | Pitchend

text \<open>
  The closures handed to \<open>_ease\<close>, as data: the variables each one captures.  The flags
  \<open>zooming\<close>, \<open>rotating\<close> and \<open>pitching\<close> are read from the camera when a frame runs.
\<close>

record ease_closure =
  e_startZoom :: real
  e_zoom :: real
  e_startBearing :: real
  e_bearing :: real
  e_startPitch :: real
  e_pitch :: real
  e_around :: "(real LngLat \<times> Point) option"
  e_from :: Point
  e_delta :: Point
  e_finalScale :: real
  e_pointAtOffset :: Point

record fly_closure =
  f_S :: real
  f_w :: "real \<Rightarrow> real"
  f_u :: "real \<Rightarrow> real"
  f_startZoom :: real
  f_startBearing :: real
  f_bearing :: real
  f_startPitch :: real
  f_pitch :: real
  f_from :: Point
  f_delta :: Point
  f_pointAtOffset :: Point

datatype 'e frame = EaseFrame ease_closure 'e | FlyFrame fly_closure 'e

datatype 'e finish = EaseFinish 'e "real option" | FlyFinish 'e

text \<open>
  Modelled from the spec: the timing primitive \<open>browser.timed\<close> is not among the sources.
  It keeps the callback built by \<open>_ease\<close> (a frame closure and the easing of the options)
  and invokes it with the elapsed fraction \<open>t\<close> once per frame until \<open>t = 1\<close>; it returns
  the function that cancels it.  \<open>callbacks\<close> are the callbacks pending in the environment,
  each under a handle.
\<close>

record 'e timed =
  t_frame :: "'e frame"
  t_easing :: "real \<Rightarrow> real"
  t_duration :: real

text \<open>
  The camera.  \<open>_abortFn\<close> and \<open>_finishFn\<close> are set together by \<open>_ease\<close> and deleted
  together by \<open>_finishEase\<close>: \<open>session\<close> is the pair of the handle that \<open>_abortFn\<close> cancels
  and the finish closure.  \<open>fired\<close> records every call of \<open>this.fire\<close> with its event data,
  in order.  \<open>timers\<close> are the pending timeouts of the environment, each with its handle
  and the event data of the deferred \<open>_easeToEnd\<close>; \<open>now\<close> is the clock read by
  \<open>Date.now()\<close>; \<open>warnings\<close> are the messages printed so far by \<open>util.warnOnce\<close>.
\<close>

record 'e Camera =
  transform :: Transform
  moving :: bool
  zooming :: bool
  rotating :: bool
  pitching :: bool
  session :: "(nat \<times> 'e finish) option"
  callbacks :: "(nat \<times> 'e timed) list"
  nextCallback :: nat
  onEaseEnd :: "nat option"
  timers :: "(nat \<times> 'e) list"
  nextTimer :: nat
  prevEase :: "(real \<times> real \<times> (real \<Rightarrow> real)) option"
  now :: real
  fired :: "(event \<times> 'e) list"
  warnings :: "string list"

definition getZoom :: "'e Camera \<Rightarrow> real" where
  "getZoom c = zoom (transform c)"

definition getBearing :: "'e Camera \<Rightarrow> real" where
  "getBearing c = bearing (transform c)"

definition getPitch :: "'e Camera \<Rightarrow> real" where
  "getPitch c = pitch (transform c)"

definition getCenter :: "'e Camera \<Rightarrow> real LngLat" where
  "getCenter c = center (transform c)"

definition isEasing :: "'e Camera \<Rightarrow> bool" where
  "isEasing c = (session c \<noteq> None)"

text \<open>
  The listeners registered on the camera are code of the application: they are the
  parameter \<open>H\<close> of every method, a function that is given the event, its data and the
  camera, and returns the camera as the listeners leave it (they may call the methods of
  the camera themselves).  \<open>quiet\<close> are listeners that leave the camera as it is.
\<close>

type_synonym 'e listeners = "event \<Rightarrow> 'e \<Rightarrow> 'e Camera \<Rightarrow> 'e Camera"

definition quiet :: "'e listeners" where
  "quiet ev eventData c = c"

definition fire :: "'e listeners \<Rightarrow> event \<Rightarrow> 'e \<Rightarrow> 'e Camera \<Rightarrow> 'e Camera" where
  "fire H ev eventData c = H ev eventData (c\<lparr>fired := fired c @ [(ev, eventData)]\<rparr>)"

text \<open>
  The outcome of a call that may throw or leave the real numbers: the camera it leaves;
  the error thrown, with the camera as it was at the throw; or \<open>NonFinite\<close>, when a
  divisor of the computation is zero or a quantity is infinite, where JavaScript goes on
  with an infinity or NaN that the embedding of camera arithmetic in the reals does not
  cover.
\<close>

datatype 'e result = Completed "'e Camera" | Thrown error "'e Camera" | NonFinite

text \<open>
  Modelled from the spec: \<open>util.warnOnce\<close> is not among the sources; a warning is emitted
  once per distinct message.
\<close>

definition warnOnce :: "string \<Rightarrow> 'e Camera \<Rightarrow> 'e Camera" where
  "warnOnce msg c = (if msg \<in> set (warnings c) then c else c\<lparr>warnings := warnings c @ [msg]\<rparr>)"

definition setTimeout_easeToEnd :: "'e \<Rightarrow> 'e Camera \<Rightarrow> 'e Camera" where
  "setTimeout_easeToEnd eventData c =
     c\<lparr>timers := timers c @ [(nextTimer c, eventData)], onEaseEnd := Some (nextTimer c),
       nextTimer := Suc (nextTimer c)\<rparr>"

definition clearTimeout :: "nat option \<Rightarrow> 'e Camera \<Rightarrow> 'e Camera" where
  "clearTimeout h c =
     (case h of None \<Rightarrow> c | Some i \<Rightarrow> c\<lparr>timers := filter (\<lambda>t. fst t \<noteq> i) (timers c)\<rparr>)"

section \<open>Camera: session life cycle\<close>

definition prepareEase :: "'e listeners \<Rightarrow> 'e \<Rightarrow> bool \<Rightarrow> 'e Camera \<Rightarrow> 'e Camera" where
  "prepareEase H eventData noMoveStart c =
     (let c1 = c\<lparr>moving := True\<rparr>;
          c2 = (if \<not> noMoveStart then fire H Movestart eventData c1 else c1);
          c3 = (if zooming c2 then fire H Zoomstart eventData c2 else c2);
          c4 = (if pitching c3 then fire H Pitchstart eventData c3 else c3)
      in c4)"

definition fireMoveEvents :: "'e listeners \<Rightarrow> 'e \<Rightarrow> 'e Camera \<Rightarrow> 'e Camera" where
  "fireMoveEvents H eventData c =
     (let c1 = fire H Move eventData c;
          c2 = (if zooming c1 then fire H Zoom eventData c1 else c1);
          c3 = (if rotating c2 then fire H Rotate eventData c2 else c2);
          c4 = (if pitching c3 then fire H Pitch eventData c3 else c3)
      in c4)"

definition easeToEnd :: "'e listeners \<Rightarrow> 'e \<Rightarrow> 'e Camera \<Rightarrow> 'e Camera" where
  "easeToEnd H eventData c =
     (let wasZooming = zooming c;
          wasPitching = pitching c;
          c1 = c\<lparr>moving := False, zooming := False, rotating := False, pitching := False\<rparr>;
          c2 = (if wasZooming then fire H Zoomend eventData c1 else c1);
          c3 = (if wasPitching then fire H Pitchend eventData c2 else c2)
      in fire H Moveend eventData c3)"

text \<open>A number used as a condition: absent and 0 are falsy.\<close>

definition truthy :: "real option \<Rightarrow> bool" where
  "truthy v = (case v of None \<Rightarrow> False | Some d \<Rightarrow> d \<noteq> 0)"

text \<open>
  The finish closures: the one of \<open>easeTo\<close> defers \<open>_easeToEnd\<close> by a timeout when
  \<open>delayEndEvents\<close> is set; the one of \<open>flyTo\<close> runs it at once.
\<close>

fun run_finish :: "'e listeners \<Rightarrow> 'e finish \<Rightarrow> 'e Camera \<Rightarrow> 'e Camera" where
  "run_finish H (EaseFinish eventData delayEndEvents) c =
     (if truthy delayEndEvents then setTimeout_easeToEnd eventData c
      else easeToEnd H eventData c)"
| "run_finish H (FlyFinish eventData) c = easeToEnd H eventData c"

text \<open>
  \<open>_finishEase\<close> deletes \<open>_abortFn\<close> and \<open>_finishFn\<close> and then calls the finish closure.
  Without a finish closure \<open>finish.call\<close> throws a TypeError: that case is decided where
  \<open>_finishEase\<close> is called (\<open>stop\<close> calls it only when there is a session, the callback of
  \<open>_ease\<close> calls it whenever \<open>t\<close> is 1), so that here the camera is returned as it is.
\<close>

definition finishEase :: "'e listeners \<Rightarrow> 'e Camera \<Rightarrow> 'e Camera" where
  "finishEase H c =
     (case session c of
        None \<Rightarrow> c
      | Some (n, finish) \<Rightarrow> run_finish H finish (c\<lparr>session := None\<rparr>))"

text \<open>\<open>this._abortFn()\<close>: the callback registered under the handle of the session is cancelled.\<close>

definition abort :: "'e Camera \<Rightarrow> 'e Camera" where
  "abort c =
     (case session c of
        None \<Rightarrow> c
      | Some (n, finish) \<Rightarrow> c\<lparr>callbacks := filter (\<lambda>cb. fst cb \<noteq> n) (callbacks c)\<rparr>)"

definition stop :: "'e listeners \<Rightarrow> 'e Camera \<Rightarrow> 'e Camera" where
  "stop H c = (if isEasing c then finishEase H (abort c) else c)"

text \<open>A timeout set by a finish closure comes due: \<open>_easeToEnd\<close> runs with its event data.\<close>

definition timeout_due :: "'e listeners \<Rightarrow> nat \<Rightarrow> 'e Camera \<Rightarrow> 'e Camera" where
  "timeout_due H i c =
     (case map_of (timers c) i of
        None \<Rightarrow> c
      | Some eventData \<Rightarrow>
          easeToEnd H eventData (c\<lparr>timers := filter (\<lambda>t. fst t \<noteq> i) (timers c)\<rparr>))"

text \<open>
  \<open>_ease\<close>: \<open>_finishFn\<close> is set, the callback is handed to the timing primitive with the
  duration, which is 0 when \<open>options.animate\<close> is \<open>false\<close>, and \<open>_abortFn\<close> is set to what
  cancels it.  Whatever \<open>_abortFn\<close> and \<open>_finishFn\<close> held before is overwritten; a callback
  that was pending stays pending.
\<close>

definition ease ::
  "'e frame \<Rightarrow> 'e finish \<Rightarrow> (real \<Rightarrow> real) \<Rightarrow> real \<Rightarrow> bool option \<Rightarrow> 'e Camera \<Rightarrow> 'e Camera" where
  "ease frame finish easing duration animate c =
     c\<lparr>session := Some (nextCallback c, finish),
       callbacks := callbacks c @
         [(nextCallback c, \<lparr>t_frame = frame, t_easing = easing,
                              t_duration = (if animate = Some False then 0 else duration)\<rparr>)],
       nextCallback := Suc (nextCallback c)\<rparr>"

section \<open>Camera: frames\<close>

text \<open>The frame closure of \<open>easeTo\<close>, called with the eased fraction \<open>k\<close>.\<close>

definition ease_frame ::
  "geo \<Rightarrow> 'e listeners \<Rightarrow> ease_closure \<Rightarrow> 'e \<Rightarrow> real \<Rightarrow> 'e Camera \<Rightarrow> 'e Camera" where
  "ease_frame g H cl eventData k c =
     (let tr0 = transform c;
          tr1 = (if zooming c then set_zoom (interpolate (e_startZoom cl) (e_zoom cl) k) tr0 else tr0);
          tr2 = (if rotating c then set_bearing (interpolate (e_startBearing cl) (e_bearing cl) k) tr1
                 else tr1);
          tr3 = (if pitching c then set_pitch (interpolate (e_startPitch cl) (e_pitch cl) k) tr2
                 else tr2);
          tr4 = (case e_around cl of
                   Some (around, aroundPoint) \<Rightarrow> setLocationAtPoint g around aroundPoint tr3
                 | None \<Rightarrow>
                     (let scale1 = zoomScale (zoom tr3 - e_startZoom cl);
                          base = (if e_zoom cl > e_startZoom cl then min 2 (e_finalScale cl)
                                  else max 0.5 (e_finalScale cl));
                          speedup = base powr (1 - k);
                          newCenter = unproject g tr3
                            (mult (add (e_from cl) (mult (e_delta cl) (k * speedup))) scale1)
                      in setLocationAtPoint g
                           (if renderWorldCopies tr3 then LngLat_wrap newCenter else newCenter)
                           (e_pointAtOffset cl) tr3))
      in fireMoveEvents H eventData (c\<lparr>transform := tr4\<rparr>))"

text \<open>The frame closure of \<open>flyTo\<close>.\<close>

definition fly_frame ::
  "geo \<Rightarrow> 'e listeners \<Rightarrow> fly_closure \<Rightarrow> 'e \<Rightarrow> real \<Rightarrow> 'e Camera \<Rightarrow> 'e Camera" where
  "fly_frame g H cl eventData k c =
     (let s = k * f_S cl;
          scale1 = 1 / f_w cl s;
          tr0 = transform c;
          tr1 = set_zoom (f_startZoom cl + scaleZoom scale1) tr0;
          tr2 = (if rotating c then set_bearing (interpolate (f_startBearing cl) (f_bearing cl) k) tr1
                 else tr1);
          tr3 = (if pitching c then set_pitch (interpolate (f_startPitch cl) (f_pitch cl) k) tr2
                 else tr2);
          newCenter = unproject g tr3
            (mult (add (f_from cl) (mult (f_delta cl) (f_u cl s))) scale1);
          tr4 = setLocationAtPoint g
                  (if renderWorldCopies tr3 then LngLat_wrap newCenter else newCenter)
                  (f_pointAtOffset cl) tr3
      in fireMoveEvents H eventData (c\<lparr>transform := tr4\<rparr>))"

fun run_frame :: "geo \<Rightarrow> 'e listeners \<Rightarrow> 'e frame \<Rightarrow> real \<Rightarrow> 'e Camera \<Rightarrow> 'e Camera" where
  "run_frame g H (EaseFrame cl eventData) k c = ease_frame g H cl eventData k c"
| "run_frame g H (FlyFrame cl eventData) k c = fly_frame g H cl eventData k c"

text \<open>
  Modelled from the spec: the timing primitive invokes the callback registered under the
  handle \<open>n\<close> with the elapsed fraction \<open>t\<close>; a callback that was cancelled gets no more
  calls, and one that is called with \<open>t = 1\<close> is called for the last time.  The callback
  itself is the one that \<open>_ease\<close> builds: a frame at the eased time, then \<open>_finishEase\<close>
  when \<open>t\<close> is 1.  If by then the camera has no finish closure, \<open>finish.call\<close> in
  \<open>_finishEase\<close> throws a TypeError.
\<close>

definition timed_callback ::
  "geo \<Rightarrow> 'e listeners \<Rightarrow> nat \<Rightarrow> real \<Rightarrow> 'e Camera \<Rightarrow> 'e result" where
  "timed_callback g H n t c =
     (case map_of (callbacks c) n of
        None \<Rightarrow> Completed c
      | Some cb \<Rightarrow>
          (let c0 = (if t = 1 then c\<lparr>callbacks := filter (\<lambda>cb. fst cb \<noteq> n) (callbacks c)\<rparr>
                     else c);
               c1 = run_frame g H (t_frame cb) (t_easing cb t) c0
           in if t = 1
              then (if isEasing c1 then Completed (finishEase H c1) else Thrown TypeError c1)
              else Completed c1))"

section \<open>Camera: jumpTo\<close>

definition jumpTo :: "'e listeners \<Rightarrow> options \<Rightarrow> 'e \<Rightarrow> 'e Camera \<Rightarrow> 'e Camera" where
  "jumpTo H opts eventData c0 =
     (let c = stop H c0;
          tr = transform c;
          zoomChanged = (case opt_zoom opts of Some z \<Rightarrow> zoom tr \<noteq> z | None \<Rightarrow> False);
          tr1 = (case opt_zoom opts of
                   Some z \<Rightarrow> if zoom tr \<noteq> z then set_zoom z tr else tr | None \<Rightarrow> tr);
          tr2 = (case opt_center opts of Some l \<Rightarrow> set_center l tr1 | None \<Rightarrow> tr1);
          bearingChanged = (case opt_bearing opts of Some b \<Rightarrow> bearing tr2 \<noteq> b | None \<Rightarrow> False);
          tr3 = (case opt_bearing opts of
                   Some b \<Rightarrow> if bearing tr2 \<noteq> b then set_bearing b tr2 else tr2 | None \<Rightarrow> tr2);
          pitchChanged = (case opt_pitch opts of Some v \<Rightarrow> pitch tr3 \<noteq> v | None \<Rightarrow> False);
          tr4 = (case opt_pitch opts of
                   Some v \<Rightarrow> if pitch tr3 \<noteq> v then set_pitch v tr3 else tr3 | None \<Rightarrow> tr3);
          c1 = fire H Move eventData (fire H Movestart eventData (c\<lparr>transform := tr4\<rparr>));
          c2 = (if zoomChanged
                then fire H Zoomend eventData (fire H Zoom eventData (fire H Zoomstart eventData c1))
                else c1);
          c3 = (if bearingChanged then fire H Rotate eventData c2 else c2);
          c4 = (if pitchChanged
                then fire H Pitchend eventData (fire H Pitch eventData (fire H Pitchstart eventData c3))
                else c3)
      in fire H Moveend eventData c4)"

section \<open>Camera: easeTo\<close>

text \<open>
  \<open>_normalizeCenter\<close>: the longitude of the target moves by a whole turn when the path
  across the antimeridian is shorter.
\<close>

definition normalizeCenter :: "Transform \<Rightarrow> real LngLat \<Rightarrow> real LngLat" where
  "normalizeCenter tr l =
     (if \<not> renderWorldCopies tr \<or> lngRange tr \<noteq> None then l
      else let delta = lng l - lng (center tr)
           in l\<lparr>lng := lng l + (if delta > 180 then - 360 else if delta < - 180 then 360 else 0)\<rparr>)"

text \<open>
  \<open>_smoothOutEasing\<close>: the easing continues the previous one, whose start, duration and
  curve are remembered in \<open>_prevEase\<close>.
\<close>

definition smoothOutEasing :: "geo \<Rightarrow> real \<Rightarrow> 'e Camera \<Rightarrow> (real \<Rightarrow> real) \<times> 'e Camera" where
  "smoothOutEasing g duration c =
     (let easing =
            (case prevEase c of
               None \<Rightarrow> util_ease g
             | Some (start, dur, prev) \<Rightarrow>
                 (let t = (now c - start) / dur;
                      speed = prev (t + 0.01) - prev t;
                      x = 0.27 / sqrt (speed * speed + 0.0001) * 0.01;
                      y = sqrt (0.27 * 0.27 - x * x)
                  in util_bezier g x y 0.25 1))
      in (easing, c\<lparr>prevEase := Some (now c, duration, easing)\<rparr>))"

text \<open>The defaults of \<open>easeTo\<close>, filled in where the caller gave nothing.\<close>

definition easeTo_defaults :: "geo \<Rightarrow> options \<Rightarrow> options" where
  "easeTo_defaults g opts =
     opts\<lparr>opt_offset := Some (case opt_offset opts of None \<Rightarrow> \<lparr>px = 0, py = 0\<rparr> | Some p \<Rightarrow> p),
          opt_duration := Some (case opt_duration opts of None \<Rightarrow> 500 | Some d \<Rightarrow> d),
          opt_easing := Some (case opt_easing opts of None \<Rightarrow> util_ease g | Some f \<Rightarrow> f)\<rparr>"

text \<open>The duration after \<open>if (options.animate === false) options.duration = 0\<close>.\<close>

definition easeTo_duration :: "options \<Rightarrow> real" where
  "easeTo_duration opts =
     (if opt_animate opts = Some False then 0
      else case opt_duration opts of Some d \<Rightarrow> d | None \<Rightarrow> 500)"

text \<open>The easing, replaced by \<open>_smoothOutEasing\<close> when \<open>smoothEasing\<close> is set.\<close>

definition easeTo_easing :: "geo \<Rightarrow> options \<Rightarrow> 'e Camera \<Rightarrow> (real \<Rightarrow> real) \<times> 'e Camera" where
  "easeTo_easing g opts c =
     (if opt_smoothEasing opts \<and> easeTo_duration opts \<noteq> 0
      then smoothOutEasing g (easeTo_duration opts) c
      else (case opt_easing opts of Some f \<Rightarrow> f | None \<Rightarrow> util_ease g, c))"

text \<open>The constants that \<open>easeTo\<close> computes from the Transform before the first frame.\<close>

definition easeTo_closure :: "geo \<Rightarrow> options \<Rightarrow> Transform \<Rightarrow> ease_closure" where
  "easeTo_closure g opts tr =
     (let offset = (case opt_offset opts of Some p \<Rightarrow> p | None \<Rightarrow> \<lparr>px = 0, py = 0\<rparr>);
          startZoom = zoom tr;
          startBearing = bearing tr;
          startPitch = pitch tr;
          zoom1 = (case opt_zoom opts of Some z \<Rightarrow> z | None \<Rightarrow> startZoom);
          bearing1 = (case opt_bearing opts of
                        Some b \<Rightarrow> normalizeBearing b startBearing | None \<Rightarrow> startBearing);
          pitch1 = (case opt_pitch opts of Some v \<Rightarrow> v | None \<Rightarrow> startPitch);
          pointAtOffset = add (centerPoint g tr) offset;
          locationAtOffset = pointLocation g tr pointAtOffset;
          center1 = normalizeCenter tr
                      (case opt_center opts of Some l \<Rightarrow> l | None \<Rightarrow> locationAtOffset);
          from = project g tr locationAtOffset;
          delta = sub (project g tr center1) from;
          finalScale = zoomScale (zoom1 - startZoom);
          around = (case opt_around opts of
                      Some a \<Rightarrow> Some (a, locationPoint g tr a) | None \<Rightarrow> None)
      in \<lparr>e_startZoom = startZoom, e_zoom = zoom1, e_startBearing = startBearing,
          e_bearing = bearing1, e_startPitch = startPitch, e_pitch = pitch1, e_around = around,
          e_from = from, e_delta = delta, e_finalScale = finalScale,
          e_pointAtOffset = pointAtOffset\<rparr>)"

definition easeTo ::
  "geo \<Rightarrow> 'e listeners \<Rightarrow> options \<Rightarrow> 'e \<Rightarrow> 'e Camera \<Rightarrow> 'e Camera" where
  "easeTo g H options0 eventData c0 =
     (let c = stop H c0;
          options1 = easeTo_defaults g options0;
          (easing, c1) = easeTo_easing g options1 c;
          cl = easeTo_closure g options1 (transform c1);
          c2 = c1\<lparr>zooming := (e_zoom cl \<noteq> e_startZoom cl),
                  rotating := (e_startBearing cl \<noteq> e_bearing cl),
                  pitching := (e_pitch cl \<noteq> e_startPitch cl)\<rparr>;
          c3 = prepareEase H eventData (opt_noMoveStart options1) c2;
          c4 = clearTimeout (onEaseEnd c3) c3
      in ease (EaseFrame cl eventData) (EaseFinish eventData (opt_delayEndEvents options1))
              easing (easeTo_duration options1) (opt_animate options1) c4)"

section \<open>Arithmetic that leaves the real numbers\<close>

text \<open>
  A division whose divisor may be zero gives an infinity or NaN; what \<open>flyTo\<close> and
  \<open>fitBounds\<close> compute from such a quotient are therefore numbers.  The minimum, the
  product with a finite factor, the square root, the exponential and the base-2 logarithm
  follow \<open>Math.min\<close>, \<open>*\<close>, \<open>Math.sqrt\<close>, \<open>Math.exp\<close> and \<open>Math.log2\<close>.
\<close>

definition divide_js :: "real \<Rightarrow> real \<Rightarrow> number" where
  "divide_js a b =
     (if b \<noteq> 0 then Finite (a / b)
      else if a = 0 then NaN else if 0 < a then PosInfinity else NegInfinity)"

fun min_js :: "number \<Rightarrow> number \<Rightarrow> number" where
  "min_js NaN b = NaN"
| "min_js a NaN = NaN"
| "min_js NegInfinity b = NegInfinity"
| "min_js a NegInfinity = NegInfinity"
| "min_js PosInfinity b = b"
| "min_js a PosInfinity = a"
| "min_js (Finite a) (Finite b) = Finite (min a b)"

fun times_js :: "real \<Rightarrow> number \<Rightarrow> number" where
  "times_js a NaN = NaN"
| "times_js a (Finite b) = Finite (a * b)"
| "times_js a PosInfinity = (if a = 0 then NaN else if 0 < a then PosInfinity else NegInfinity)"
| "times_js a NegInfinity = (if a = 0 then NaN else if 0 < a then NegInfinity else PosInfinity)"

fun scaleZoom_js :: "number \<Rightarrow> number" where
  "scaleZoom_js NaN = NaN"
| "scaleZoom_js NegInfinity = NaN"
| "scaleZoom_js PosInfinity = PosInfinity"
| "scaleZoom_js (Finite s) =
     (if 0 < s then Finite (scaleZoom s) else if s = 0 then NegInfinity else NaN)"

fun sqrt_js :: "number \<Rightarrow> number" where
  "sqrt_js NaN = NaN"
| "sqrt_js NegInfinity = NaN"
| "sqrt_js PosInfinity = PosInfinity"
| "sqrt_js (Finite a) = (if 0 \<le> a then Finite (sqrt a) else NaN)"

fun exp_js :: "number \<Rightarrow> number" where
  "exp_js NaN = NaN"
| "exp_js NegInfinity = Finite 0"
| "exp_js PosInfinity = PosInfinity"
| "exp_js (Finite a) = Finite (exp a)"

section \<open>Camera: flyTo\<close>

text \<open>The hyperbolic functions that \<open>flyTo\<close> defines for itself from \<open>Math.exp\<close>.\<close>

definition flyTo_sinh :: "real \<Rightarrow> real" where
  "flyTo_sinh n = (exp n - exp (- n)) / 2"

definition flyTo_cosh :: "real \<Rightarrow> real" where
  "flyTo_cosh n = (exp n + exp (- n)) / 2"

definition flyTo_tanh :: "real \<Rightarrow> real" where
  "flyTo_tanh n = flyTo_sinh n / flyTo_cosh n"

text \<open>
  \<open>r(i)\<close>, the zoom-out factor at one end of the path: \<open>i\<close> is 0 for the ascent and 1 for
  the descent, and is used as a condition.
\<close>

definition flyTo_r :: "real \<Rightarrow> real \<Rightarrow> real \<Rightarrow> real \<Rightarrow> nat \<Rightarrow> real" where
  "flyTo_r w0 w1 u1 rho2 i =
     (let b = (w1 * w1 - w0 * w0 + (if i \<noteq> 0 then - 1 else 1) * rho2 * rho2 * u1 * u1)
              / (2 * (if i \<noteq> 0 then w1 else w0) * rho2 * u1)
      in ln (sqrt (b * b + 1) - b))"

text \<open>\<open>w(s)\<close> and \<open>u(s)\<close> of the hyperbolic path, and of the path without ground travel.\<close>

definition flyTo_w :: "real \<Rightarrow> real \<Rightarrow> real \<Rightarrow> real" where
  "flyTo_w r0 rho s = flyTo_cosh r0 / flyTo_cosh (r0 + rho * s)"

definition flyTo_u :: "real \<Rightarrow> real \<Rightarrow> real \<Rightarrow> real \<Rightarrow> real \<Rightarrow> real \<Rightarrow> real" where
  "flyTo_u w0 u1 r0 rho rho2 s =
     w0 * ((flyTo_cosh r0 * flyTo_tanh (r0 + rho * s) - flyTo_sinh r0) / rho2) / u1"

definition flyTo_w_zoom :: "real \<Rightarrow> real \<Rightarrow> real \<Rightarrow> real" where
  "flyTo_w_zoom k rho s = exp (k * rho * s)"

text \<open>
  The same \<open>Math.exp(k * rho * s)\<close> for a \<open>rho\<close> that may be an infinity or NaN; the
  product \<open>(k * rho) * s\<close> is taken with the finite factor first.
\<close>

definition flyTo_w_zoom_js :: "real \<Rightarrow> number \<Rightarrow> real \<Rightarrow> number" where
  "flyTo_w_zoom_js k rho s = exp_js (times_js s (times_js k rho))"

text \<open>The defaults of \<open>flyTo\<close>.\<close>

definition flyTo_defaults :: "geo \<Rightarrow> options \<Rightarrow> options" where
  "flyTo_defaults g opts =
     opts\<lparr>opt_offset := Some (case opt_offset opts of None \<Rightarrow> \<lparr>px = 0, py = 0\<rparr> | Some p \<Rightarrow> p),
          opt_speed := Some (case opt_speed opts of None \<Rightarrow> 1.2 | Some v \<Rightarrow> v),
          opt_curve := Some (case opt_curve opts of None \<Rightarrow> 1.42 | Some v \<Rightarrow> v),
          opt_easing := Some (case opt_easing opts of None \<Rightarrow> util_ease g | Some f \<Rightarrow> f)\<rparr>"

text \<open>
  The quantities on which \<open>flyTo\<close> decides its path, from the Transform at the call: the
  target zoom, the initial span \<open>w0\<close>, the final span \<open>w1\<close>, the projected vector from the
  start to the target center and its length \<open>u1\<close>.
\<close>

definition flyTo_zoom :: "options \<Rightarrow> Transform \<Rightarrow> real" where
  "flyTo_zoom opts tr = (case opt_zoom opts of Some z \<Rightarrow> z | None \<Rightarrow> zoom tr)"

definition flyTo_w0 :: "Transform \<Rightarrow> real" where
  "flyTo_w0 tr = max (width tr) (height tr)"

definition flyTo_w1 :: "options \<Rightarrow> Transform \<Rightarrow> real" where
  "flyTo_w1 opts tr = flyTo_w0 tr / zoomScale (flyTo_zoom opts tr - zoom tr)"

definition flyTo_pointAtOffset :: "geo \<Rightarrow> options \<Rightarrow> Transform \<Rightarrow> Point" where
  "flyTo_pointAtOffset g opts tr =
     add (centerPoint g tr) (case opt_offset opts of Some p \<Rightarrow> p | None \<Rightarrow> \<lparr>px = 0, py = 0\<rparr>)"

definition flyTo_from :: "geo \<Rightarrow> options \<Rightarrow> Transform \<Rightarrow> Point" where
  "flyTo_from g opts tr = project g tr (pointLocation g tr (flyTo_pointAtOffset g opts tr))"

definition flyTo_delta :: "geo \<Rightarrow> options \<Rightarrow> Transform \<Rightarrow> Point" where
  "flyTo_delta g opts tr =
     (let locationAtOffset = pointLocation g tr (flyTo_pointAtOffset g opts tr);
          center1 = normalizeCenter tr
                      (case opt_center opts of Some l \<Rightarrow> l | None \<Rightarrow> locationAtOffset)
      in sub (project g tr center1) (flyTo_from g opts tr))"

definition flyTo_u1 :: "geo \<Rightarrow> options \<Rightarrow> Transform \<Rightarrow> real" where
  "flyTo_u1 g opts tr = mag (flyTo_delta g opts tr)"

text \<open>
  \<open>rho\<close>: the curve of the options, or with \<open>minZoom\<close> the value computed from the peak
  span, by a division by \<open>u1\<close>.
\<close>

definition flyTo_rho :: "geo \<Rightarrow> options \<Rightarrow> Transform \<Rightarrow> number" where
  "flyTo_rho g opts tr =
     (case opt_minZoom opts of
        None \<Rightarrow> Finite (case opt_curve opts of Some v \<Rightarrow> v | None \<Rightarrow> 1.42)
      | Some mz \<Rightarrow>
          (let minZoom1 = clamp (min (min mz (zoom tr)) (flyTo_zoom opts tr)) (minZoom tr) (maxZoom tr);
               wMax = flyTo_w0 tr / zoomScale (minZoom1 - zoom tr)
           in sqrt_js (times_js 2 (divide_js wMax (flyTo_u1 g opts tr)))))"

text \<open>
  The path of \<open>flyTo\<close> for a finite \<open>rho\<close>: \<open>w\<close>, \<open>u\<close> and the length \<open>S\<close>, with the
  replacement made when there is no ground travel.
\<close>

definition flyTo_path ::
  "geo \<Rightarrow> options \<Rightarrow> Transform \<Rightarrow> real \<Rightarrow> (real \<Rightarrow> real) \<times> (real \<Rightarrow> real) \<times> real" where
  "flyTo_path g opts tr rho =
     (let w0 = flyTo_w0 tr;
          w1 = flyTo_w1 opts tr;
          u1 = flyTo_u1 g opts tr;
          rho2 = rho * rho;
          r0 = flyTo_r w0 w1 u1 rho2 0
      in if \<bar>u1\<bar> < 0.000001
         then (let k = (if w1 < w0 then - 1 else 1)
               in (flyTo_w_zoom k rho, (\<lambda>s. 0), \<bar>ln (w1 / w0)\<bar> / rho))
         else (flyTo_w r0 rho, flyTo_u w0 u1 r0 rho rho2, (flyTo_r w0 w1 u1 rho2 1 - r0) / rho))"

definition flyTo_duration :: "geo \<Rightarrow> options \<Rightarrow> Transform \<Rightarrow> real \<Rightarrow> real" where
  "flyTo_duration g opts tr rho =
     (case opt_duration opts of
        Some d \<Rightarrow> d
      | None \<Rightarrow>
          (let V = (case opt_screenSpeed opts of
                      Some v \<Rightarrow> v / rho
                    | None \<Rightarrow> (case opt_speed opts of Some v \<Rightarrow> v | None \<Rightarrow> 1.2))
           in 1000 * snd (snd (flyTo_path g opts tr rho)) / V))"

definition flyTo_closure :: "geo \<Rightarrow> options \<Rightarrow> Transform \<Rightarrow> real \<Rightarrow> fly_closure" where
  "flyTo_closure g opts tr rho =
     (let (w, u, S) = flyTo_path g opts tr rho;
          startBearing = bearing tr;
          startPitch = pitch tr
      in \<lparr>f_S = S, f_w = w, f_u = u, f_startZoom = zoom tr, f_startBearing = startBearing,
          f_bearing = (case opt_bearing opts of
                         Some b \<Rightarrow> normalizeBearing b startBearing | None \<Rightarrow> startBearing),
          f_startPitch = startPitch,
          f_pitch = (case opt_pitch opts of Some v \<Rightarrow> v | None \<Rightarrow> startPitch),
          f_from = flyTo_from g opts tr, f_delta = flyTo_delta g opts tr,
          f_pointAtOffset = flyTo_pointAtOffset g opts tr\<rparr>)"

text \<open>
  The path is too short for a flight when there is neither ground travel nor a change
  of span: \<open>flyTo\<close> then hands over to \<open>easeTo\<close>.
\<close>

definition flyTo_too_short :: "geo \<Rightarrow> options \<Rightarrow> Transform \<Rightarrow> bool" where
  "flyTo_too_short g opts tr =
     (\<bar>flyTo_u1 g opts tr\<bar> < 0.000001 \<and> \<bar>flyTo_w0 tr - flyTo_w1 opts tr\<bar> < 0.000001)"

text \<open>
  The other divisors of the path are not zero: \<open>rho\<close>, which divides in \<open>r\<close>, \<open>u\<close>, \<open>S\<close> and
  \<open>V\<close>; \<open>w0\<close>, which divides in \<open>r\<close> and in the logarithm, as \<open>w1\<close> does, a positive
  multiple of it; and \<open>V\<close>, when the duration is computed from it.  (\<open>u1\<close> divides on the
  hyperbolic path only, where it is at least 0.000001.)
\<close>

definition flyTo_divisors :: "options \<Rightarrow> Transform \<Rightarrow> real \<Rightarrow> bool" where
  "flyTo_divisors opts tr rho =
     (rho \<noteq> 0 \<and> flyTo_w0 tr \<noteq> 0 \<and>
      (case opt_duration opts of
         Some d \<Rightarrow> True
       | None \<Rightarrow>
           (case opt_screenSpeed opts of
              Some v \<Rightarrow> v \<noteq> 0
            | None \<Rightarrow> (case opt_speed opts of Some v \<Rightarrow> v \<noteq> 0 | None \<Rightarrow> True))))"

text \<open>
  \<open>flyTo\<close>.  When \<open>rho\<close> is an infinity or NaN, or a divisor of the path is zero, the
  session that the source registers works on infinities and NaN: the outcome is
  \<open>NonFinite\<close>.
\<close>

definition flyTo ::
  "geo \<Rightarrow> 'e listeners \<Rightarrow> options \<Rightarrow> 'e \<Rightarrow> 'e Camera \<Rightarrow> 'e result" where
  "flyTo g H options0 eventData c0 =
     (let c = stop H c0;
          options1 = flyTo_defaults g options0;
          tr = transform c
      in if flyTo_too_short g options1 tr then Completed (easeTo g H options1 eventData c)
         else
           (case flyTo_rho g options1 tr of
              Finite rho \<Rightarrow>
                if flyTo_divisors options1 tr rho
                then
                  (let cl = flyTo_closure g options1 tr rho;
                       c2 = c\<lparr>zooming := True, rotating := (f_startBearing cl \<noteq> f_bearing cl),
                              pitching := (f_pitch cl \<noteq> f_startPitch cl)\<rparr>;
                       c3 = prepareEase H eventData False c2
                   in Completed
                        (ease (FlyFrame cl eventData) (FlyFinish eventData)
                           (case opt_easing options1 of Some f \<Rightarrow> f | None \<Rightarrow> util_ease g)
                           (flyTo_duration g options1 tr rho) (opt_animate options1) c3))
                else NonFinite
            | _ \<Rightarrow> NonFinite))"

section \<open>Camera: fitBounds\<close>

text \<open>
  The bounds are a LngLatBounds with both corners set, which \<open>LngLatBounds.convert\<close>
  returns as it is.
\<close>

record LngLatBounds =
  sw :: "real LngLat"
  ne :: "real LngLat"

definition getNorthWest :: "LngLatBounds \<Rightarrow> real LngLat" where
  "getNorthWest b = \<lparr>lng = lng (sw b), lat = lat (ne b)\<rparr>"

definition getSouthEast :: "LngLatBounds \<Rightarrow> real LngLat" where
  "getSouthEast b = \<lparr>lng = lng (ne b), lat = lat (sw b)\<rparr>"

text \<open>The keys of a padding object, sorted by the comparator of \<open>fitBounds\<close>.\<close>

definition sorted_keys :: "(string \<times> real) list \<Rightarrow> string list" where
  "sorted_keys obj = sort (map fst obj)"

definition property :: "(string \<times> real) list \<Rightarrow> string \<Rightarrow> real" where
  "property obj k = (case map_of obj k of Some v \<Rightarrow> v | None \<Rightarrow> 0)"

text \<open>The two warnings of \<open>fitBounds\<close>; \<open>quoted\<close> puts a word between apostrophes.\<close>

definition quoted :: "string \<Rightarrow> string" where
  "quoted s = CHR 0x27 # s @ [CHR 0x27]"

definition padding_warning :: string where
  "padding_warning =
     ''options.padding must be a positive number, or an Object with keys '' @ quoted ''bottom''
     @ '', '' @ quoted ''left'' @ '', '' @ quoted ''right'' @ '', '' @ quoted ''top''"

definition cannot_fit_warning :: string where
  "cannot_fit_warning =
     ''Map cannot fit within canvas with the given bounds, padding, and/or offset.''"

definition fitBounds_padding :: "options \<Rightarrow> (string \<times> real) list" where
  "fitBounds_padding opts =
     (case opt_padding opts of
        None \<Rightarrow> [(''top'', 0), (''bottom'', 0), (''right'', 0), (''left'', 0)]
      | Some (PaddingNumber p) \<Rightarrow> [(''top'', p), (''bottom'', p), (''right'', p), (''left'', p)]
      | Some (PaddingObject obj) \<Rightarrow> obj
      | Some PaddingNullish \<Rightarrow> [])"

definition fitBounds_offset :: "options \<Rightarrow> Point" where
  "fitBounds_offset opts =
     (let padding1 = fitBounds_padding opts;
          offset0 = (case opt_offset opts of Some p \<Rightarrow> p | None \<Rightarrow> \<lparr>px = 0, py = 0\<rparr>)
      in \<lparr>px = px offset0 + (property padding1 ''left'' - property padding1 ''right''),
          py = py offset0 + (property padding1 ''top'' - property padding1 ''bottom'')\<rparr>)"

definition fitBounds_scaleX :: "geo \<Rightarrow> LngLatBounds \<Rightarrow> options \<Rightarrow> Transform \<Rightarrow> number" where
  "fitBounds_scaleX g bounds opts tr =
     (let padding1 = fitBounds_padding opts;
          lateralPadding = min (property padding1 ''right'') (property padding1 ''left'');
          offset = fitBounds_offset opts;
          size = sub (project g tr (getSouthEast bounds)) (project g tr (getNorthWest bounds))
      in divide_js (width tr - lateralPadding * 2 - \<bar>px offset\<bar> * 2) (px size))"

definition fitBounds_scaleY :: "geo \<Rightarrow> LngLatBounds \<Rightarrow> options \<Rightarrow> Transform \<Rightarrow> number" where
  "fitBounds_scaleY g bounds opts tr =
     (let padding1 = fitBounds_padding opts;
          verticalPadding = min (property padding1 ''top'') (property padding1 ''bottom'');
          offset = fitBounds_offset opts;
          size = sub (project g tr (getSouthEast bounds)) (project g tr (getNorthWest bounds))
      in divide_js (height tr - verticalPadding * 2 - \<bar>py offset\<bar> * 2) (py size))"

text \<open>
  \<open>fitBounds\<close>.  \<open>Object.keys\<close> throws a TypeError for a padding that is \<open>null\<close> or
  \<open>undefined\<close>.  When the zoom computed for the target is NaN or an infinity the outcome
  is \<open>NonFinite\<close>.
\<close>

definition fitBounds ::
  "geo \<Rightarrow> 'e listeners \<Rightarrow> LngLatBounds \<Rightarrow> options \<Rightarrow> 'e \<Rightarrow> 'e Camera \<Rightarrow> 'e result" where
  "fitBounds g H bounds options0 eventData c =
     (let tr = transform c;
          maxZoom1 = (case opt_maxZoom options0 of Some z \<Rightarrow> z | None \<Rightarrow> maxZoom tr);
          padding1 = fitBounds_padding options0
      in if opt_padding options0 = Some PaddingNullish then Thrown TypeError c
         else if sorted_keys padding1 \<noteq> [''bottom'', ''left'', ''right'', ''top'']
         then Completed (warnOnce padding_warning c)
         else
           (let scaleX = fitBounds_scaleX g bounds options0 tr;
                scaleY = fitBounds_scaleY g bounds options0 tr
            in if lt scaleY 0 \<or> lt scaleX 0
               then Completed (warnOnce cannot_fit_warning c)
               else
                 (let nw = project g tr (getNorthWest bounds);
                      se = project g tr (getSouthEast bounds);
                      center1 = unproject g tr (mult (add nw se) (1 / 2))
                  in case min_js (scaleZoom_js (times_js (scale tr) (min_js scaleX scaleY)))
                            (Finite maxZoom1) of
                       Finite zoom1 \<Rightarrow>
                         (let options1 = options0\<lparr>opt_padding := Some (PaddingObject padding1),
                                opt_offset := Some (fitBounds_offset options0),
                                opt_maxZoom := Some maxZoom1, opt_center := Some center1,
                                opt_zoom := Some zoom1, opt_bearing := Some 0\<rparr>
                          in if opt_linear options1
                             then Completed (easeTo g H options1 eventData c)
                             else flyTo g H options1 eventData c)
                     | _ \<Rightarrow> NonFinite)))"

section \<open>The timing primitive and an example camera\<close>

text \<open>
  Modelled from the spec: the frames of one session, as the timing primitive delivers
  them: the callback under the handle \<open>n\<close> is invoked once for each elapsed fraction of the
  list, in order, until a call throws.
\<close>

fun run_frames :: "geo \<Rightarrow> 'e listeners \<Rightarrow> nat \<Rightarrow> real list \<Rightarrow> 'e Camera \<Rightarrow> 'e result" where
  "run_frames g H n [] c = Completed c"
| "run_frames g H n (t # ts) c =
     (case timed_callback g H n t c of
        Completed c1 \<Rightarrow> run_frames g H n ts c1
      | Thrown e c1 \<Rightarrow> Thrown e c1
      | NonFinite \<Rightarrow> NonFinite)"

text \<open>The camera that a call leaves when it returns.\<close>

fun completed :: "'e result \<Rightarrow> 'e Camera option" where
  "completed (Completed c) = Some c"
| "completed (Thrown e c) = None"
| "completed NonFinite = None"

text \<open>
  Whether a finish closure defers the end events by a timeout, and the event data that
  a finish closure and a frame closure carry.
\<close>

fun deferred :: "'e finish \<Rightarrow> bool" where
  "deferred (EaseFinish eventData delayEndEvents) = truthy delayEndEvents"
| "deferred (FlyFinish eventData) = False"

fun finish_eventData :: "'e finish \<Rightarrow> 'e" where
  "finish_eventData (EaseFinish eventData delayEndEvents) = eventData"
| "finish_eventData (FlyFinish eventData) = eventData"

fun frame_eventData :: "'e frame \<Rightarrow> 'e" where
  "frame_eventData (EaseFrame cl eventData) = eventData"
| "frame_eventData (FlyFrame cl eventData) = eventData"

text \<open>
  An instance of the parameters for closed examples: a flat map with one pixel per degree
  at zoom 0, the identity as default easing, and an idle camera on a 64 by 64 viewport
  at zoom 0 whose events carry a string.
\<close>

definition flat_project :: "Transform \<Rightarrow> real LngLat \<Rightarrow> Point" where
  "flat_project tr l = \<lparr>px = lng l * scale tr, py = - lat l * scale tr\<rparr>"

definition flat_unproject :: "Transform \<Rightarrow> Point \<Rightarrow> real LngLat" where
  "flat_unproject tr p = \<lparr>lng = px p / scale tr, lat = - py p / scale tr\<rparr>"

definition flat_centerPoint :: "Transform \<Rightarrow> Point" where
  "flat_centerPoint tr = \<lparr>px = width tr / 2, py = height tr / 2\<rparr>"

definition flat_geo :: geo where
  "flat_geo =
     \<lparr>project = flat_project,
      unproject = flat_unproject,
      pointLocation = (\<lambda>tr p. flat_unproject tr
         (add (sub p (flat_centerPoint tr)) (flat_project tr (center tr)))),
      locationPoint = (\<lambda>tr l.
         add (sub (flat_project tr l) (flat_project tr (center tr))) (flat_centerPoint tr)),
      centerPoint = flat_centerPoint,
      setLocationAtPoint = (\<lambda>l p tr. tr\<lparr>center := flat_unproject tr
         (sub (flat_project tr l) (sub p (flat_centerPoint tr)))\<rparr>),
      util_ease = (\<lambda>t. t),
      util_bezier = (\<lambda>x1 y1 x2 y2 t. t)\<rparr>"

definition example_transform :: Transform where
  "example_transform =
     \<lparr>center = \<lparr>lng = 0, lat = 0\<rparr>, zoom = 0, bearing = 0, pitch = 0, width = 64, height = 64,
      renderWorldCopies = True, lngRange = None, minZoom = 0, maxZoom = 22\<rparr>"

definition example_camera :: "string Camera" where
  "example_camera =
     \<lparr>transform = example_transform, moving = False, zooming = False, rotating = False,
      pitching = False, session = None, callbacks = [], nextCallback = 0, onEaseEnd = None,
      timers = [], nextTimer = 0,
      prevEase = None, now = 0, fired = [], warnings = []\<rparr>"



section \<open>Properties of the LngLat constructor\<close>

lemma gt_Finite [simp]: "gt (Finite x) r \<longleftrightarrow> r < x"
  by (simp add: gt_def)

lemma lt_Finite [simp]: "lt (Finite x) r \<longleftrightarrow> x < r"
  by (simp add: lt_def)

text \<open>
  C8.  Constructing a LngLat throws exactly when a coordinate is NaN or the latitude is
  strictly above 90 or strictly below -90; for every other pair of numbers (infinite
  longitudes included) the construction succeeds and the object holds the two numbers
  as given.
\<close>

theorem LngLat_constructor_throws_iff:
  "(\<exists>e. LngLat_constructor x y = Inl e) = (isNaN x \<or> isNaN y \<or> gt y 90 \<or> lt y (- 90))
   \<and> ((\<exists>e. LngLat_constructor x y = Inl e) \<or> LngLat_constructor x y = Inr \<lparr>lng = x, lat = y\<rparr>)"
  by (simp add: LngLat_constructor_def Let_def)

section \<open>Properties of bearing normalisation\<close>

lemma wrap_range:
  assumes "mn < mx"
  shows "mn \<le> wrap n mn mx \<and> wrap n mn mx < mx"
proof -
  define d where "d = mx - mn"
  define q where "q = (n - mn) / d"
  have d: "0 < d" using assms by (simp add: d_def)
  have 1: "of_int \<lfloor>q\<rfloor> \<le> q" and 2: "q < of_int \<lfloor>q\<rfloor> + 1" by linarith+
  have nq: "n - mn = d * q" using d by (simp add: q_def)
  have a: "d * of_int \<lfloor>q\<rfloor> \<le> d * q" using 1 d by simp
  have b: "d * q < d * (of_int \<lfloor>q\<rfloor> + 1)" using 2 d by simp
  have w: "wrap n mn mx = n - d * of_int \<lfloor>q\<rfloor>"
    by (simp add: wrap_def Let_def d_def q_def)
  from a b nq show ?thesis unfolding w by (simp add: algebra_simps d_def)
qed

lemma wrap_same_revolution: "\<exists>k::int. wrap n (- 180) 180 = n + 360 * of_int k"
proof
  show "wrap n (- 180) 180 = n + 360 * of_int (- \<lfloor>(n + 180) / 360\<rfloor>)"
    by (simp add: wrap_def Let_def)
qed

lemma wrap_10: "wrap 10 (- 180) 180 = 10"
  by (simp add: wrap_def Let_def)

lemma wrap_0: "wrap 0 (- 180) 180 = 0"
  by (simp add: wrap_def Let_def)

lemma normalizeBearing_candidates:
  "normalizeBearing b c \<in> {wrap b (- 180) 180, wrap b (- 180) 180 - 360, wrap b (- 180) 180 + 360}"
  by (simp add: normalizeBearing_def Let_def)

lemma normalizeBearing_least:
  "\<bar>normalizeBearing b c - c\<bar> \<le> \<bar>wrap b (- 180) 180 - c\<bar>"
  "\<bar>normalizeBearing b c - c\<bar> \<le> \<bar>wrap b (- 180) 180 - 360 - c\<bar>"
  "\<bar>normalizeBearing b c - c\<bar> \<le> \<bar>wrap b (- 180) 180 + 360 - c\<bar>"
  by (auto simp add: normalizeBearing_def Let_def)

lemma normalizeBearing_within_180:
  assumes "\<bar>c\<bar> \<le> 360"
  shows "\<bar>normalizeBearing b c - c\<bar> \<le> 180"
  using assms wrap_range[of "- 180" 180 b] by (auto simp add: normalizeBearing_def Let_def)

text \<open>
  C5 (as stated, refuted).  The result is not within 180 degrees of the current bearing
  for every current bearing.  Only the three representatives \<open>w\<close>, \<open>w - 360\<close> and
  \<open>w + 360\<close> of the wrapped target are tried, so a current bearing of 1000 degrees gets the
  answer 360 for the target 0, which is 640 degrees away.
\<close>

theorem normalizeBearing_far_current_counterexample:
  "normalizeBearing 0 1000 = 360 \<and> \<not> \<bar>normalizeBearing 0 1000 - 1000\<bar> \<le> 180"
  by (simp add: normalizeBearing_def wrap_0)

text \<open>
  C5 (amended).  The target is first wrapped into \<open>[-180, 180)\<close> within its revolution; the
  result is one of the wrapped target \<open>w\<close>, \<open>w - 360\<close>, \<open>w + 360\<close>, and none of these three
  is closer to the current bearing than the result.  Whenever the current bearing lies in
  \<open>[-360, 360]\<close> the result is at most 180 degrees away from it.  In particular
  \<open>normalizeBearing 10 350 = 370\<close>.
\<close>

theorem normalizeBearing_closest:
  "(let w = wrap b (- 180) 180; r = normalizeBearing b c
    in - 180 \<le> w \<and> w < 180 \<and> (\<exists>k::int. w = b + 360 * of_int k)
       \<and> r \<in> {w, w - 360, w + 360}
       \<and> \<bar>r - c\<bar> \<le> \<bar>w - c\<bar> \<and> \<bar>r - c\<bar> \<le> \<bar>w - 360 - c\<bar> \<and> \<bar>r - c\<bar> \<le> \<bar>w + 360 - c\<bar>
       \<and> (\<bar>c\<bar> \<le> 360 \<longrightarrow> \<bar>r - c\<bar> \<le> 180))
   \<and> normalizeBearing 10 350 = 370"
proof -
  have "normalizeBearing 10 350 = 370"
    by (simp add: normalizeBearing_def wrap_10)
  then show ?thesis
    unfolding Let_def
    using wrap_range[of "- 180" 180 b] wrap_same_revolution[of b]
      normalizeBearing_candidates[of b c] normalizeBearing_least[of b c]
      normalizeBearing_within_180[of c b]
    by simp
qed

theorem normalizeBearing_closest_witness:
  "\<bar>350::real\<bar> \<le> 360 \<and> \<bar>normalizeBearing 10 350 - 350\<bar> \<le> 180 \<and> normalizeBearing 10 350 = 370"
  using normalizeBearing_closest[of 10 350] by (simp add: Let_def)

section \<open>Properties of the worker pool\<close>

lemma length_array_set: "length (array_set xs i v) = (if i < length xs then length xs else Suc (length xs))"
  by (simp add: array_set_def)

lemma length_create_loop:
  "length (foldl (\<lambda>ws i. array_set ws i v) ws [0..<n]) = max (length ws) n"
  by (induction n) (auto simp add: length_array_set)

lemma length_createNativeWorkers:
  "length (nativeWorkers (createNativeWorkers p)) =
     max (length (nativeWorkers p)) (if workerCount p = 0 then 3 else workerCount p)"
  by (simp add: createNativeWorkers_def Let_def length_create_loop)

lemma createNativeWorkers_fields:
  "nextNativeWorkerIndex (createNativeWorkers p) = nextNativeWorkerIndex p"
  "pooledWorkers (createNativeWorkers p) = pooledWorkers p"
  "workerCount (createNativeWorkers p) = workerCount p"
  by (simp_all add: createNativeWorkers_def Let_def)

lemma createPooledWorker_running:
  assumes "nativeWorkers p \<noteq> []" "nextNativeWorkerIndex p < length (nativeWorkers p)"
    and "createPooledWorker body opts p = (h, p')"
  shows "pooledWorkerId h = length (pooledWorkers p)"
    and "native h = nextNativeWorkerIndex p"
    and "pooledWorkers p' = pooledWorkers p @ [h]"
    and "length (nativeWorkers p') = length (nativeWorkers p)"
    and "nextNativeWorkerIndex p' = (nextNativeWorkerIndex p + 1) mod length (nativeWorkers p)"
    and "workerCount p' = workerCount p"
  using assms
  by (auto simp add: createPooledWorker_def allocateNativeWorker_def postMessage_def Let_def
      array_set_def)

lemma createPooledWorker_first:
  assumes "nativeWorkers p = []" "nextNativeWorkerIndex p = 0"
    and "createPooledWorker body opts p = (h, p')"
  shows "pooledWorkerId h = length (pooledWorkers p)"
    and "native h = 0"
    and "pooledWorkers p' = pooledWorkers p @ [h]"
    and "length (nativeWorkers p') = (if workerCount p = 0 then 3 else workerCount p)"
    and "nextNativeWorkerIndex p' = 1 mod (if workerCount p = 0 then 3 else workerCount p)"
    and "workerCount p' = workerCount p"
  using assms
  by (auto simp add: createPooledWorker_def allocateNativeWorker_def postMessage_def Let_def
      array_set_def length_createNativeWorkers createNativeWorkers_fields)

lemma allocations_running:
  assumes "nativeWorkers p \<noteq> []" "nextNativeWorkerIndex p < length (nativeWorkers p)"
  shows "map (\<lambda>h. (pooledWorkerId h, native h)) (fst (allocations reqs p)) =
           map (\<lambda>j. (length (pooledWorkers p) + j,
                      (nextNativeWorkerIndex p + j) mod length (nativeWorkers p)))
               [0..<length reqs]
         \<and> pooledWorkers (snd (allocations reqs p)) = pooledWorkers p @ fst (allocations reqs p)
         \<and> length (nativeWorkers (snd (allocations reqs p))) = length (nativeWorkers p)"
  using assms
proof (induction reqs arbitrary: p)
  case Nil
  then show ?case by simp
next
  case (Cons r rs)
  obtain body opts where r: "r = (body, opts)" by (cases r)
  obtain h p1 where c: "createPooledWorker body opts p = (h, p1)" by (cases "createPooledWorker body opts p")
  note s = createPooledWorker_running[OF Cons.prems c]
  have ne: "nativeWorkers p1 \<noteq> []" using s(4) Cons.prems(1) by auto
  have lt: "nextNativeWorkerIndex p1 < length (nativeWorkers p1)"
    using s(4,5) Cons.prems by simp
  note ih = Cons.IH[OF ne lt]
  have m: "map (\<lambda>j. (length (pooledWorkers p) + j, (nextNativeWorkerIndex p + j) mod length (nativeWorkers p))) [0..<Suc (length rs)]
      = (length (pooledWorkers p), nextNativeWorkerIndex p) #
        map (\<lambda>j. (Suc (length (pooledWorkers p)) + j, ((nextNativeWorkerIndex p + 1) mod length (nativeWorkers p) + j) mod length (nativeWorkers p))) [0..<length rs]"
    using Cons.prems(2)
    by (simp add: upt_conv_Cons map_Suc_upt[symmetric] mod_simps del: upt_Suc)
  show ?case
    using ih s m by (simp add: r c split_beta Let_def del: upt_Suc)
qed


text \<open>
  C3.  A run of allocations on the initial module state, with \<open>N\<close> real workers (the
  configured count, or 3 when it is absent), returns handles whose logical ids are
  0, 1, 2, ... in order and whose real workers are \<open>i mod N\<close>; the registry holds exactly
  these handles at their ids; \<open>N\<close> is at least 1, and the real workers exist only once
  the first allocation was made.
\<close>

theorem allocations_round_robin:
  "(let N = (if wc = 0 then 3 else wc);
        (hs, p) = allocations reqs (initial_pool wc :: ('b, 'a, 'l) pool)
    in map (\<lambda>h. (pooledWorkerId h, native h)) hs = map (\<lambda>i. (i, i mod N)) [0..<length reqs]
       \<and> pooledWorkers p = hs \<and> 1 \<le> N
       \<and> length (nativeWorkers p) = (if reqs = [] then 0 else N))"
proof (cases reqs)
  case Nil
  then show ?thesis by (simp add: initial_pool_def)
next
  case (Cons r rs)
  define N where "N = (if wc = 0 then 3 else wc)"
  define p0 :: "('b, 'a, 'l) pool" where "p0 = initial_pool wc"
  obtain body opts where r: "r = (body, opts)" by (cases r)
  obtain h p1 where c: "createPooledWorker body opts p0 = (h, p1)"
    by (cases "createPooledWorker body opts p0")
  have p0: "nativeWorkers p0 = []" "nextNativeWorkerIndex p0 = 0" "pooledWorkers p0 = []"
    "workerCount p0 = wc"
    by (simp_all add: p0_def initial_pool_def)
  note s = createPooledWorker_first[OF p0(1,2) c]
  have N: "0 < N" by (simp add: N_def)
  have len: "length (nativeWorkers p1) = N" using s(4) p0(4) by (simp add: N_def)
  have ne: "nativeWorkers p1 \<noteq> []" using len N by auto
  have lt: "nextNativeWorkerIndex p1 < length (nativeWorkers p1)"
    using s(5) p0(4) N len by (simp add: N_def)
  note run = allocations_running[OF ne lt, of rs]
  have nx: "nextNativeWorkerIndex p1 = 1 mod N" using s(5) p0(4) by (simp add: N_def)
  have pw: "pooledWorkers p1 = [h]" using s(3) p0(3) by simp
  have m: "map (\<lambda>i. (i, i mod N)) [0..<Suc (length rs)]
           = (0, 0) # map (\<lambda>j. (Suc j, (1 mod N + j) mod N)) [0..<length rs]"
    by (simp add: upt_conv_Cons map_Suc_upt[symmetric] mod_simps del: upt_Suc)
  have h: "pooledWorkerId h = 0" "native h = 0" using s(1,2) p0(3) by simp_all
  show ?thesis
    using run m h N
    by (simp add: Cons r c[unfolded p0_def] N_def[symmetric] split_beta Let_def len nx pw
        del: upt_Suc)
qed

text \<open>
  C7 (as stated, refuted).  A message for a logical id that the registry does not hold is
  not a silent no-op: with no handle registered, the listener of the main thread throws
  on the message addressed to id 7, and so does the listener inside a real worker.
\<close>

theorem unknown_id_throws_counterexample:
  "fst (main_listener (Addressed 7 ''polo'' ()) (initial_pool 1 :: (unit, unit, unit) pool))
     = Threw TypeError
   \<and> fst (worker_listener (\<lambda>b opts h. h) (Addressed 7 ''marco'' ())
            (\<lparr>registry = Map.empty, outbox = []\<rparr> :: (unit, unit, unit) worker_state))
     = Threw TypeError"
  by (simp add: main_listener_def worker_listener_def registry_lookup_def initial_pool_def)

text \<open>
  C7 (amended).  For every inbound message whose logical id is not in the registry of
  the receiving side, the listener throws a TypeError and leaves the state as it was: no
  registry entry is created or modified and no listener of any handle is called.
\<close>

theorem unknown_id_no_effect:
  "(registry_lookup (pooledWorkers p) (message_pooledWorkerId m) = None
      \<longrightarrow> main_listener m p = (Threw TypeError, p))
   \<and> (registry ws i = None
      \<longrightarrow> worker_listener run_body (Addressed i ty d) ws = (Threw TypeError, ws))"
  by (cases m) (simp_all add: main_listener_def worker_listener_def)

theorem unknown_id_no_effect_witness:
  "registry_lookup (pooledWorkers (initial_pool 1 :: (unit, unit, unit) pool))
       (message_pooledWorkerId (Addressed 7 ''polo'' ())) = None
   \<and> main_listener (Addressed 7 ''polo'' ()) (initial_pool 1 :: (unit, unit, unit) pool)
       = (Threw TypeError, initial_pool 1)
   \<and> registry (\<lparr>registry = Map.empty, outbox = []\<rparr> :: (unit, unit, unit) worker_state) 7 = None
   \<and> worker_listener (\<lambda>b opts h. h) (Addressed 7 ''marco'' ())
       (\<lparr>registry = Map.empty, outbox = []\<rparr> :: (unit, unit, unit) worker_state)
       = (Threw TypeError, \<lparr>registry = Map.empty, outbox = []\<rparr>)"
  using unknown_id_no_effect[of "initial_pool 1 :: (unit, unit, unit) pool"
      "Addressed 7 ''polo'' ()" "\<lparr>registry = Map.empty, outbox = []\<rparr>" 7 "\<lambda>b opts h. h"
      "''marco''" "()"]
  by (simp add: registry_lookup_def initial_pool_def)

section \<open>Camera: the effect of the building blocks on each field\<close>

lemma fire_fields [simp]:
  "fired (fire quiet ev ed c) = fired c @ [(ev, ed)]"
  "transform (fire quiet ev ed c) = transform c"
  "session (fire quiet ev ed c) = session c"
  "callbacks (fire quiet ev ed c) = callbacks c"
  "nextCallback (fire quiet ev ed c) = nextCallback c"
  "moving (fire quiet ev ed c) = moving c"
  "zooming (fire quiet ev ed c) = zooming c"
  "rotating (fire quiet ev ed c) = rotating c"
  "pitching (fire quiet ev ed c) = pitching c"
  "timers (fire quiet ev ed c) = timers c"
  "onEaseEnd (fire quiet ev ed c) = onEaseEnd c"
  "nextTimer (fire quiet ev ed c) = nextTimer c"
  "prevEase (fire quiet ev ed c) = prevEase c"
  "now (fire quiet ev ed c) = now c"
  "warnings (fire quiet ev ed c) = warnings c"
  by (simp_all add: fire_def quiet_def)

lemma easeToEnd_fields [simp]:
  "fired (easeToEnd quiet ed c) =
     fired c @ (if zooming c then [(Zoomend, ed)] else []) @ (if pitching c then [(Pitchend, ed)] else [])
       @ [(Moveend, ed)]"
  "transform (easeToEnd quiet ed c) = transform c"
  "session (easeToEnd quiet ed c) = session c"
  "callbacks (easeToEnd quiet ed c) = callbacks c"
  "nextCallback (easeToEnd quiet ed c) = nextCallback c"
  "moving (easeToEnd quiet ed c) = False"
  "zooming (easeToEnd quiet ed c) = False"
  "rotating (easeToEnd quiet ed c) = False"
  "pitching (easeToEnd quiet ed c) = False"
  "timers (easeToEnd quiet ed c) = timers c"
  "onEaseEnd (easeToEnd quiet ed c) = onEaseEnd c"
  "nextTimer (easeToEnd quiet ed c) = nextTimer c"
  "prevEase (easeToEnd quiet ed c) = prevEase c"
  "now (easeToEnd quiet ed c) = now c"
  "warnings (easeToEnd quiet ed c) = warnings c"
  by (simp_all add: easeToEnd_def Let_def)

lemma prepareEase_fields [simp]:
  "fired (prepareEase quiet ed nms c) =
     fired c @ (if nms then [] else [(Movestart, ed)]) @ (if zooming c then [(Zoomstart, ed)] else [])
       @ (if pitching c then [(Pitchstart, ed)] else [])"
  "transform (prepareEase quiet ed nms c) = transform c"
  "session (prepareEase quiet ed nms c) = session c"
  "callbacks (prepareEase quiet ed nms c) = callbacks c"
  "nextCallback (prepareEase quiet ed nms c) = nextCallback c"
  "moving (prepareEase quiet ed nms c) = True"
  "zooming (prepareEase quiet ed nms c) = zooming c"
  "rotating (prepareEase quiet ed nms c) = rotating c"
  "pitching (prepareEase quiet ed nms c) = pitching c"
  "timers (prepareEase quiet ed nms c) = timers c"
  "onEaseEnd (prepareEase quiet ed nms c) = onEaseEnd c"
  "nextTimer (prepareEase quiet ed nms c) = nextTimer c"
  "prevEase (prepareEase quiet ed nms c) = prevEase c"
  "now (prepareEase quiet ed nms c) = now c"
  "warnings (prepareEase quiet ed nms c) = warnings c"
  by (simp_all add: prepareEase_def Let_def)

lemma fireMoveEvents_fields [simp]:
  "fired (fireMoveEvents quiet ed c) =
     fired c @ [(Move, ed)] @ (if zooming c then [(Zoom, ed)] else [])
       @ (if rotating c then [(Rotate, ed)] else []) @ (if pitching c then [(Pitch, ed)] else [])"
  "transform (fireMoveEvents quiet ed c) = transform c"
  "session (fireMoveEvents quiet ed c) = session c"
  "callbacks (fireMoveEvents quiet ed c) = callbacks c"
  "nextCallback (fireMoveEvents quiet ed c) = nextCallback c"
  "moving (fireMoveEvents quiet ed c) = moving c"
  "zooming (fireMoveEvents quiet ed c) = zooming c"
  "rotating (fireMoveEvents quiet ed c) = rotating c"
  "pitching (fireMoveEvents quiet ed c) = pitching c"
  "timers (fireMoveEvents quiet ed c) = timers c"
  "onEaseEnd (fireMoveEvents quiet ed c) = onEaseEnd c"
  "nextTimer (fireMoveEvents quiet ed c) = nextTimer c"
  "prevEase (fireMoveEvents quiet ed c) = prevEase c"
  "now (fireMoveEvents quiet ed c) = now c"
  "warnings (fireMoveEvents quiet ed c) = warnings c"
  by (simp_all add: fireMoveEvents_def Let_def)

lemma setTimeout_fields [simp]:
  "fired (setTimeout_easeToEnd ed c) = fired c"
  "transform (setTimeout_easeToEnd ed c) = transform c"
  "session (setTimeout_easeToEnd ed c) = session c"
  "callbacks (setTimeout_easeToEnd ed c) = callbacks c"
  "nextCallback (setTimeout_easeToEnd ed c) = nextCallback c"
  "moving (setTimeout_easeToEnd ed c) = moving c"
  "zooming (setTimeout_easeToEnd ed c) = zooming c"
  "rotating (setTimeout_easeToEnd ed c) = rotating c"
  "pitching (setTimeout_easeToEnd ed c) = pitching c"
  "timers (setTimeout_easeToEnd ed c) = timers c @ [(nextTimer c, ed)]"
  "onEaseEnd (setTimeout_easeToEnd ed c) = Some (nextTimer c)"
  "nextTimer (setTimeout_easeToEnd ed c) = Suc (nextTimer c)"
  "prevEase (setTimeout_easeToEnd ed c) = prevEase c"
  "now (setTimeout_easeToEnd ed c) = now c"
  "warnings (setTimeout_easeToEnd ed c) = warnings c"
  by (simp_all add: setTimeout_easeToEnd_def)

lemma clearTimeout_fields [simp]:
  "fired (clearTimeout h c) = fired c"
  "transform (clearTimeout h c) = transform c"
  "session (clearTimeout h c) = session c"
  "callbacks (clearTimeout h c) = callbacks c"
  "nextCallback (clearTimeout h c) = nextCallback c"
  "moving (clearTimeout h c) = moving c"
  "zooming (clearTimeout h c) = zooming c"
  "rotating (clearTimeout h c) = rotating c"
  "pitching (clearTimeout h c) = pitching c"
  "onEaseEnd (clearTimeout h c) = onEaseEnd c"
  "nextTimer (clearTimeout h c) = nextTimer c"
  "prevEase (clearTimeout h c) = prevEase c"
  "now (clearTimeout h c) = now c"
  "warnings (clearTimeout h c) = warnings c"
  by (simp_all add: clearTimeout_def split: option.splits)

lemma run_finish_fields [simp]:
  "transform (run_finish quiet f c) = transform c"
  "session (run_finish quiet f c) = session c"
  "callbacks (run_finish quiet f c) = callbacks c"
  "nextCallback (run_finish quiet f c) = nextCallback c"
  "prevEase (run_finish quiet f c) = prevEase c"
  "now (run_finish quiet f c) = now c"
  "warnings (run_finish quiet f c) = warnings c"
  by (cases f; simp)+

lemma finishEase_fields [simp]:
  "transform (finishEase quiet c) = transform c"
  "session (finishEase quiet c) = None"
  "callbacks (finishEase quiet c) = callbacks c"
  "nextCallback (finishEase quiet c) = nextCallback c"
  "prevEase (finishEase quiet c) = prevEase c"
  "now (finishEase quiet c) = now c"
  "warnings (finishEase quiet c) = warnings c"
  by (simp_all add: finishEase_def split: option.splits prod.splits)

lemma abort_fields [simp]:
  "fired (abort c) = fired c"
  "transform (abort c) = transform c"
  "session (abort c) = session c"
  "nextCallback (abort c) = nextCallback c"
  "moving (abort c) = moving c"
  "zooming (abort c) = zooming c"
  "rotating (abort c) = rotating c"
  "pitching (abort c) = pitching c"
  "timers (abort c) = timers c"
  "onEaseEnd (abort c) = onEaseEnd c"
  "nextTimer (abort c) = nextTimer c"
  "prevEase (abort c) = prevEase c"
  "now (abort c) = now c"
  "warnings (abort c) = warnings c"
  by (simp_all add: abort_def split: option.splits prod.splits)

lemma abort_idle: "session c = None \<Longrightarrow> abort c = c"
  by (simp add: abort_def)

lemma abort_callbacks:
  "session c = Some (n, fin) \<Longrightarrow> callbacks (abort c) = filter (\<lambda>cb. fst cb \<noteq> n) (callbacks c)"
  by (simp add: abort_def)

lemma stop_fields [simp]:
  "transform (stop quiet c) = transform c"
  "session (stop quiet c) = None"
  "callbacks (stop quiet c) = callbacks (abort c)"
  "nextCallback (stop quiet c) = nextCallback c"
  "prevEase (stop quiet c) = prevEase c"
  "now (stop quiet c) = now c"
  "warnings (stop quiet c) = warnings c"
  by (cases "session c"; simp add: stop_def isEasing_def abort_idle)+

lemma stop_idle: "session c = None \<Longrightarrow> stop H c = c"
  by (simp add: stop_def isEasing_def)

lemma stop_stop [simp]: "stop quiet (stop quiet c) = stop quiet c"
  by (simp add: stop_idle)

lemma ease_fields [simp]:
  "fired (ease fr fi ea du an c) = fired c"
  "transform (ease fr fi ea du an c) = transform c"
  "session (ease fr fi ea du an c) = Some (nextCallback c, fi)"
  "callbacks (ease fr fi ea du an c) =
     callbacks c @ [(nextCallback c, \<lparr>t_frame = fr, t_easing = ea,
                                        t_duration = (if an = Some False then 0 else du)\<rparr>)]"
  "nextCallback (ease fr fi ea du an c) = Suc (nextCallback c)"
  "moving (ease fr fi ea du an c) = moving c"
  "zooming (ease fr fi ea du an c) = zooming c"
  "rotating (ease fr fi ea du an c) = rotating c"
  "pitching (ease fr fi ea du an c) = pitching c"
  "timers (ease fr fi ea du an c) = timers c"
  "onEaseEnd (ease fr fi ea du an c) = onEaseEnd c"
  "nextTimer (ease fr fi ea du an c) = nextTimer c"
  "prevEase (ease fr fi ea du an c) = prevEase c"
  "now (ease fr fi ea du an c) = now c"
  "warnings (ease fr fi ea du an c) = warnings c"
  by (simp_all add: ease_def)

lemma clamp_id: "mn \<le> n \<Longrightarrow> n \<le> mx \<Longrightarrow> clamp n mn mx = n"
  by (simp add: clamp_def)

section \<open>Camera: easeTo and flyTo in normal form\<close>

lemma easeTo_easing_snd:
  "snd (easeTo_easing g opts c) = c\<lparr>prevEase := prevEase (snd (easeTo_easing g opts c))\<rparr>"
  by (simp add: easeTo_easing_def smoothOutEasing_def Let_def)

lemma easeTo_defaults_fields [simp]:
  "opt_zoom (easeTo_defaults g opts) = opt_zoom opts"
  "opt_pitch (easeTo_defaults g opts) = opt_pitch opts"
  "opt_bearing (easeTo_defaults g opts) = opt_bearing opts"
  "opt_center (easeTo_defaults g opts) = opt_center opts"
  "opt_around (easeTo_defaults g opts) = opt_around opts"
  "opt_animate (easeTo_defaults g opts) = opt_animate opts"
  "opt_smoothEasing (easeTo_defaults g opts) = opt_smoothEasing opts"
  "opt_noMoveStart (easeTo_defaults g opts) = opt_noMoveStart opts"
  "opt_delayEndEvents (easeTo_defaults g opts) = opt_delayEndEvents opts"
  by (simp_all add: easeTo_defaults_def)

lemma easeTo_closure_fields [simp]:
  "e_startZoom (easeTo_closure g opts tr) = zoom tr"
  "e_zoom (easeTo_closure g opts tr) = (case opt_zoom opts of Some z \<Rightarrow> z | None \<Rightarrow> zoom tr)"
  "e_startPitch (easeTo_closure g opts tr) = pitch tr"
  "e_pitch (easeTo_closure g opts tr) = (case opt_pitch opts of Some v \<Rightarrow> v | None \<Rightarrow> pitch tr)"
  "e_startBearing (easeTo_closure g opts tr) = bearing tr"
  "e_bearing (easeTo_closure g opts tr) =
     (case opt_bearing opts of Some b \<Rightarrow> normalizeBearing b (bearing tr) | None \<Rightarrow> bearing tr)"
  by (simp_all add: easeTo_closure_def Let_def)

lemma easeTo_eq:
  "easeTo g quiet opts ed c =
     ease (EaseFrame (easeTo_closure g (easeTo_defaults g opts) (transform c)) ed)
       (EaseFinish ed (opt_delayEndEvents opts))
       (fst (easeTo_easing g (easeTo_defaults g opts) (stop quiet c)))
       (easeTo_duration (easeTo_defaults g opts)) (opt_animate opts)
       (clearTimeout (onEaseEnd (stop quiet c))
         (prepareEase quiet ed (opt_noMoveStart opts)
           ((stop quiet c)\<lparr>prevEase := prevEase (snd (easeTo_easing g (easeTo_defaults g opts) (stop quiet c))),
               zooming := ((case opt_zoom opts of Some z \<Rightarrow> z | None \<Rightarrow> zoom (transform c))
                            \<noteq> zoom (transform c)),
               rotating := (bearing (transform c) \<noteq>
                            (case opt_bearing opts of
                               Some b \<Rightarrow> normalizeBearing b (bearing (transform c))
                             | None \<Rightarrow> bearing (transform c))),
               pitching := ((case opt_pitch opts of Some v \<Rightarrow> v | None \<Rightarrow> pitch (transform c))
                            \<noteq> pitch (transform c))\<rparr>)))"
proof -
  define pe where "pe = prevEase (snd (easeTo_easing g (easeTo_defaults g opts) (stop quiet c)))"
  have pe: "snd (easeTo_easing g (easeTo_defaults g opts) (stop quiet c)) = (stop quiet c)\<lparr>prevEase := pe\<rparr>"
    unfolding pe_def by (rule easeTo_easing_snd)
  show ?thesis
    unfolding pe_def[symmetric]
    by (simp add: easeTo_def Let_def split_beta pe cong: option.case_cong)
qed

lemma easeTo_fired:
  "fired (easeTo g quiet opts ed c) =
     fired (stop quiet c) @ (if opt_noMoveStart opts then [] else [(Movestart, ed)])
       @ (if (case opt_zoom opts of Some z \<Rightarrow> z | None \<Rightarrow> zoom (transform c)) \<noteq> zoom (transform c)
          then [(Zoomstart, ed)] else [])
       @ (if (case opt_pitch opts of Some v \<Rightarrow> v | None \<Rightarrow> pitch (transform c)) \<noteq> pitch (transform c)
          then [(Pitchstart, ed)] else [])"
  by (simp add: easeTo_eq)

lemma easeTo_flags:
  "zooming (easeTo g quiet opts ed c) =
     ((case opt_zoom opts of Some z \<Rightarrow> z | None \<Rightarrow> zoom (transform c)) \<noteq> zoom (transform c))"
  "pitching (easeTo g quiet opts ed c) =
     ((case opt_pitch opts of Some v \<Rightarrow> v | None \<Rightarrow> pitch (transform c)) \<noteq> pitch (transform c))"
  "rotating (easeTo g quiet opts ed c) =
     (bearing (transform c) \<noteq> (case opt_bearing opts of
         Some b \<Rightarrow> normalizeBearing b (bearing (transform c)) | None \<Rightarrow> bearing (transform c)))"
  "moving (easeTo g quiet opts ed c) = True"
  "transform (easeTo g quiet opts ed c) = transform c"
  by (simp_all add: easeTo_eq)

lemma easeTo_session:
  "session (easeTo g quiet opts ed c) = Some (nextCallback c, EaseFinish ed (opt_delayEndEvents opts))"
  "nextCallback (easeTo g quiet opts ed c) = Suc (nextCallback c)"
  "callbacks (easeTo g quiet opts ed c) =
     callbacks (abort c) @
       [(nextCallback c,
         \<lparr>t_frame = EaseFrame (easeTo_closure g (easeTo_defaults g opts) (transform c)) ed,
          t_easing = fst (easeTo_easing g (easeTo_defaults g opts) (stop quiet c)),
          t_duration = (if opt_animate opts = Some False then 0
                        else easeTo_duration (easeTo_defaults g opts))\<rparr>)]"
  by (simp_all add: easeTo_eq)

lemma easeTo_timers:
  "timers (easeTo g quiet opts ed c) =
     (case onEaseEnd (stop quiet c) of None \<Rightarrow> timers (stop quiet c)
      | Some i \<Rightarrow> filter (\<lambda>t. fst t \<noteq> i) (timers (stop quiet c)))"
  by (simp add: easeTo_eq clearTimeout_def split: option.splits)

lemma easeTo_after_stop: "easeTo g quiet opts ed (stop quiet c) = easeTo g quiet opts ed c"
  by (simp add: easeTo_def)

lemma easeTo_flyTo_defaults: "easeTo g quiet (flyTo_defaults g opts) ed c = easeTo g quiet opts ed c"
proof -
  have d: "easeTo_defaults g (flyTo_defaults g opts)
           = (easeTo_defaults g opts)\<lparr>opt_speed := opt_speed (flyTo_defaults g opts),
                                       opt_curve := opt_curve (flyTo_defaults g opts)\<rparr>"
    by (simp add: easeTo_defaults_def flyTo_defaults_def split: option.splits)
  have 1: "easeTo_closure g (o1\<lparr>opt_speed := a, opt_curve := b\<rparr>) tr = easeTo_closure g o1 tr"
    for o1 a b tr by (simp add: easeTo_closure_def)
  have 2: "easeTo_duration (o1\<lparr>opt_speed := a, opt_curve := b\<rparr>) = easeTo_duration o1"
    for o1 a b by (simp add: easeTo_duration_def)
  have 3: "easeTo_easing g (o1\<lparr>opt_speed := a, opt_curve := b\<rparr>) c1 = easeTo_easing g o1 c1"
    for o1 a b and c1 :: "'a Camera" by (simp add: easeTo_easing_def 2)
  show ?thesis
    by (simp add: easeTo_def d 1 2 3 Let_def)
qed

lemma flyTo_defaults_fields [simp]:
  "opt_zoom (flyTo_defaults g opts) = opt_zoom opts"
  "opt_pitch (flyTo_defaults g opts) = opt_pitch opts"
  "opt_bearing (flyTo_defaults g opts) = opt_bearing opts"
  "opt_center (flyTo_defaults g opts) = opt_center opts"
  "opt_animate (flyTo_defaults g opts) = opt_animate opts"
  "opt_duration (flyTo_defaults g opts) = opt_duration opts"
  "opt_minZoom (flyTo_defaults g opts) = opt_minZoom opts"
  "opt_screenSpeed (flyTo_defaults g opts) = opt_screenSpeed opts"
  by (simp_all add: flyTo_defaults_def)

lemma flyTo_defaults_quantities [simp]:
  "flyTo_zoom (flyTo_defaults g opts) tr = flyTo_zoom opts tr"
  "flyTo_w1 (flyTo_defaults g opts) tr = flyTo_w1 opts tr"
  "flyTo_pointAtOffset g (flyTo_defaults g opts) tr = flyTo_pointAtOffset g opts tr"
  "flyTo_from g (flyTo_defaults g opts) tr = flyTo_from g opts tr"
  "flyTo_delta g (flyTo_defaults g opts) tr = flyTo_delta g opts tr"
  "flyTo_u1 g (flyTo_defaults g opts) tr = flyTo_u1 g opts tr"
  "flyTo_rho g (flyTo_defaults g opts) tr = flyTo_rho g opts tr"
  "flyTo_too_short g (flyTo_defaults g opts) tr = flyTo_too_short g opts tr"
  "flyTo_divisors (flyTo_defaults g opts) tr rho = flyTo_divisors opts tr rho"
proof -
  show z: "flyTo_zoom (flyTo_defaults g opts) tr = flyTo_zoom opts tr"
    by (simp add: flyTo_zoom_def)
  show w: "flyTo_w1 (flyTo_defaults g opts) tr = flyTo_w1 opts tr"
    by (simp add: flyTo_w1_def z)
  show p: "flyTo_pointAtOffset g (flyTo_defaults g opts) tr = flyTo_pointAtOffset g opts tr"
    by (simp add: flyTo_pointAtOffset_def flyTo_defaults_def split: option.splits)
  show f: "flyTo_from g (flyTo_defaults g opts) tr = flyTo_from g opts tr"
    by (simp add: flyTo_from_def p)
  show d: "flyTo_delta g (flyTo_defaults g opts) tr = flyTo_delta g opts tr"
    by (simp add: flyTo_delta_def p f)
  show u: "flyTo_u1 g (flyTo_defaults g opts) tr = flyTo_u1 g opts tr"
    by (simp add: flyTo_u1_def d)
  show "flyTo_rho g (flyTo_defaults g opts) tr = flyTo_rho g opts tr"
  proof -
    have m: "opt_minZoom (flyTo_defaults g opts) = opt_minZoom opts"
      by (simp add: flyTo_defaults_def)
    have cv: "(case opt_curve (flyTo_defaults g opts) of Some v \<Rightarrow> v | None \<Rightarrow> 1.42)
              = (case opt_curve opts of Some v \<Rightarrow> v | None \<Rightarrow> 1.42)"
      by (simp add: flyTo_defaults_def split: option.splits)
    show ?thesis unfolding flyTo_rho_def m u z cv by (rule refl)
  qed
  show "flyTo_divisors (flyTo_defaults g opts) tr rho = flyTo_divisors opts tr rho"
  proof -
    have d: "opt_duration (flyTo_defaults g opts) = opt_duration opts"
      and ss: "opt_screenSpeed (flyTo_defaults g opts) = opt_screenSpeed opts"
      by (simp_all add: flyTo_defaults_def)
    have sp: "(case opt_speed (flyTo_defaults g opts) of Some v \<Rightarrow> v \<noteq> 0 | None \<Rightarrow> True)
              = (case opt_speed opts of Some v \<Rightarrow> v \<noteq> 0 | None \<Rightarrow> True)"
      by (simp add: flyTo_defaults_def split: option.splits)
    show ?thesis unfolding flyTo_divisors_def d ss sp by (rule refl)
  qed
  show "flyTo_too_short g (flyTo_defaults g opts) tr = flyTo_too_short g opts tr"
    by (simp only: flyTo_too_short_def u w)
qed

lemma flyTo_closure_fields [simp]:
  "f_startZoom (flyTo_closure g opts tr rho) = zoom tr"
  "f_startPitch (flyTo_closure g opts tr rho) = pitch tr"
  "f_pitch (flyTo_closure g opts tr rho) = (case opt_pitch opts of Some v \<Rightarrow> v | None \<Rightarrow> pitch tr)"
  "f_startBearing (flyTo_closure g opts tr rho) = bearing tr"
  "f_bearing (flyTo_closure g opts tr rho) =
     (case opt_bearing opts of Some b \<Rightarrow> normalizeBearing b (bearing tr) | None \<Rightarrow> bearing tr)"
  "f_w (flyTo_closure g opts tr rho) = fst (flyTo_path g opts tr rho)"
  "f_u (flyTo_closure g opts tr rho) = fst (snd (flyTo_path g opts tr rho))"
  "f_S (flyTo_closure g opts tr rho) = snd (snd (flyTo_path g opts tr rho))"
  by (simp_all add: flyTo_closure_def Let_def split_beta)

lemma flyTo_fallback:
  assumes "flyTo_too_short g opts (transform c)"
  shows "flyTo g quiet opts ed c = Completed (easeTo g quiet (flyTo_defaults g opts) ed (stop quiet c))"
    and "flyTo g quiet opts ed c = Completed (easeTo g quiet opts ed c)"
  using assms by (simp_all add: flyTo_def Let_def easeTo_after_stop easeTo_flyTo_defaults)

lemma flyTo_not_finite:
  assumes "\<not> flyTo_too_short g opts (transform c)"
    and "\<forall>rho. flyTo_rho g opts (transform c) \<noteq> Finite rho"
  shows "flyTo g quiet opts ed c = NonFinite"
  using assms by (cases "flyTo_rho g opts (transform c)") (simp_all add: flyTo_def Let_def)

lemma flyTo_eq:
  assumes "\<not> flyTo_too_short g opts (transform c)"
    and "flyTo_rho g opts (transform c) = Finite rho"
    and "flyTo_divisors opts (transform c) rho"
  shows "flyTo g quiet opts ed c = Completed
     (ease (FlyFrame (flyTo_closure g (flyTo_defaults g opts) (transform c) rho) ed) (FlyFinish ed)
       (case opt_easing (flyTo_defaults g opts) of Some f \<Rightarrow> f | None \<Rightarrow> util_ease g)
       (flyTo_duration g (flyTo_defaults g opts) (transform c) rho) (opt_animate opts)
       (prepareEase quiet ed False
          ((stop quiet c)\<lparr>zooming := True,
              rotating := (bearing (transform c) \<noteq>
                            (case opt_bearing opts of
                               Some b \<Rightarrow> normalizeBearing b (bearing (transform c))
                             | None \<Rightarrow> bearing (transform c))),
              pitching := ((case opt_pitch opts of Some v \<Rightarrow> v | None \<Rightarrow> pitch (transform c))
                            \<noteq> pitch (transform c))\<rparr>)))"
  using assms by (simp add: flyTo_def Let_def)

lemma fly_frame_fields [simp]:
  "fired (fly_frame g quiet cl ed k c) = fired (fireMoveEvents quiet ed c)"
  "session (fly_frame g quiet cl ed k c) = session c"
  "callbacks (fly_frame g quiet cl ed k c) = callbacks c"
  "nextCallback (fly_frame g quiet cl ed k c) = nextCallback c"
  "zooming (fly_frame g quiet cl ed k c) = zooming c"
  "rotating (fly_frame g quiet cl ed k c) = rotating c"
  "pitching (fly_frame g quiet cl ed k c) = pitching c"
  "timers (fly_frame g quiet cl ed k c) = timers c"
  by (simp_all add: fly_frame_def Let_def)

lemma ease_frame_fields [simp]:
  "fired (ease_frame g quiet cl ed k c) = fired (fireMoveEvents quiet ed c)"
  "session (ease_frame g quiet cl ed k c) = session c"
  "callbacks (ease_frame g quiet cl ed k c) = callbacks c"
  "nextCallback (ease_frame g quiet cl ed k c) = nextCallback c"
  "zooming (ease_frame g quiet cl ed k c) = zooming c"
  "rotating (ease_frame g quiet cl ed k c) = rotating c"
  "pitching (ease_frame g quiet cl ed k c) = pitching c"
  "timers (ease_frame g quiet cl ed k c) = timers c"
  by (simp_all add: ease_frame_def Let_def)


lemma stop_deferred:
  assumes "session c = Some (n, fin)" and "deferred fin"
  shows "fired (stop quiet c) = fired c"
    and "timers (stop quiet c) = timers c @ [(nextTimer c, finish_eventData fin)]"
    and "onEaseEnd (stop quiet c) = Some (nextTimer c)"
  using assms by (cases fin; simp add: stop_def isEasing_def finishEase_def)+

section \<open>Properties of jumpTo\<close>

lemma example_camera_fields [simp]:
  "transform example_camera = example_transform"
  "session example_camera = None"
  "callbacks example_camera = []"
  "nextCallback example_camera = 0"
  "fired example_camera = []"
  "timers example_camera = []"
  "nextTimer example_camera = 0"
  "onEaseEnd example_camera = None"
  "prevEase example_camera = None"
  "warnings example_camera = []"
  "moving example_camera = False"
  "zooming example_camera = False"
  "pitching example_camera = False"
  "rotating example_camera = False"
  by (simp_all add: example_camera_def)

lemma example_transform_fields [simp]:
  "zoom example_transform = 0"
  "pitch example_transform = 0"
  "bearing example_transform = 0"
  "center example_transform = \<lparr>lng = 0, lat = 0\<rparr>"
  "width example_transform = 64"
  "height example_transform = 64"
  "minZoom example_transform = 0"
  "maxZoom example_transform = 22"
  "renderWorldCopies example_transform = True"
  "lngRange example_transform = None"
  by (simp_all add: example_transform_def)

lemma no_options_fields [simp]:
  "opt_center no_options = None"
  "opt_zoom no_options = None"
  "opt_bearing no_options = None"
  "opt_pitch no_options = None"
  "opt_offset no_options = None"
  "opt_noMoveStart no_options = False"
  "opt_delayEndEvents no_options = None"
  "opt_minZoom no_options = None"
  "opt_curve no_options = None"
  "opt_padding no_options = None"
  "opt_duration no_options = None"
  "opt_screenSpeed no_options = None"
  "opt_speed no_options = None"
  "opt_animate no_options = None"
  by (simp_all add: no_options_def)

lemma jumpTo_quiet_fired:
  "fired (jumpTo quiet opts ed c) =
     fired (stop quiet c) @ [(Movestart, ed), (Move, ed)]
       @ (if (case opt_zoom opts of Some z \<Rightarrow> zoom (transform c) \<noteq> z | None \<Rightarrow> False)
          then [(Zoomstart, ed), (Zoom, ed), (Zoomend, ed)] else [])
       @ (if (case opt_bearing opts of Some b \<Rightarrow> bearing (transform c) \<noteq> b | None \<Rightarrow> False)
          then [(Rotate, ed)] else [])
       @ (if (case opt_pitch opts of Some v \<Rightarrow> pitch (transform c) \<noteq> v | None \<Rightarrow> False)
          then [(Pitchstart, ed), (Pitch, ed), (Pitchend, ed)] else [])
       @ [(Moveend, ed)]"
  "session (jumpTo quiet opts ed c) = None"
  "callbacks (jumpTo quiet opts ed c) = callbacks (abort c)"
  by (simp_all add: jumpTo_def Let_def set_zoom_def set_center_def set_bearing_def set_pitch_def
      split: option.splits)

text \<open>
  C4 (as stated, refuted).  The zoom setter of the Transform clamps to the zoom range
  of the map: on a camera at zoom 0 whose maximal zoom is 3, \<open>jumpTo({zoom: 5})\<close> fires
  its six events and leaves the zoom at 3.  And a listener may call the camera: when a
  moveend listener answers with \<open>jumpTo({zoom: 7})\<close>, the call returns with the zoom at 7
  and twelve events fired.
\<close>

theorem jumpTo_zoom_5_counterexample:
  "(let c = example_camera\<lparr>transform := example_transform\<lparr>maxZoom := 3\<rparr>\<rparr>;
        c1 = jumpTo quiet (no_options\<lparr>opt_zoom := Some 5\<rparr>) ''jump'' c
    in getZoom c = 0 \<and> getZoom c1 = 3
       \<and> fired c1 = [(Movestart, ''jump''), (Move, ''jump''), (Zoomstart, ''jump''),
                      (Zoom, ''jump''), (Zoomend, ''jump''), (Moveend, ''jump'')])
   \<and> (let H = (\<lambda>ev ed c. if ev = Moveend \<and> ed = ''jump''
                           then jumpTo quiet (no_options\<lparr>opt_zoom := Some 7\<rparr>) ''again'' c else c);
           c1 = jumpTo H (no_options\<lparr>opt_zoom := Some 5\<rparr>) ''jump'' example_camera
       in getZoom example_camera = 0 \<and> getZoom c1 = 7
          \<and> fired c1 = [(Movestart, ''jump''), (Move, ''jump''), (Zoomstart, ''jump''),
                         (Zoom, ''jump''), (Zoomend, ''jump''), (Moveend, ''jump''),
                         (Movestart, ''again''), (Move, ''again''), (Zoomstart, ''again''),
                         (Zoom, ''again''), (Zoomend, ''again''), (Moveend, ''again'')])"
proof -
  have a: "getZoom (jumpTo quiet (no_options\<lparr>opt_zoom := Some 5\<rparr>) ''jump''
             (example_camera\<lparr>transform := example_transform\<lparr>maxZoom := 3\<rparr>\<rparr>)) = 3"
    by (simp add: jumpTo_def Let_def getZoom_def set_zoom_def clamp_def stop_idle)
  have b: "fired (jumpTo quiet (no_options\<lparr>opt_zoom := Some 5\<rparr>) ''jump''
             (example_camera\<lparr>transform := example_transform\<lparr>maxZoom := 3\<rparr>\<rparr>)) =
           [(Movestart, ''jump''), (Move, ''jump''), (Zoomstart, ''jump''),
            (Zoom, ''jump''), (Zoomend, ''jump''), (Moveend, ''jump'')]"
    by (simp add: jumpTo_quiet_fired stop_idle)
  define H :: "string listeners" where
    "H = (\<lambda>ev ed c. if ev = Moveend \<and> ed = ''jump''
                     then jumpTo quiet (no_options\<lparr>opt_zoom := Some 7\<rparr>) ''again'' c else c)"
  have H_other: "ev \<noteq> Moveend \<Longrightarrow> fire H ev ed c = c\<lparr>fired := fired c @ [(ev, ed)]\<rparr>" for ev ed c
    by (simp add: fire_def H_def)
  define c5 where "c5 = example_camera\<lparr>transform := example_transform\<lparr>zoom := 5\<rparr>,
      fired := [(Movestart, ''jump''), (Move, ''jump''), (Zoomstart, ''jump''),
                (Zoom, ''jump''), (Zoomend, ''jump'')]\<rparr>"
  have j: "jumpTo H (no_options\<lparr>opt_zoom := Some 5\<rparr>) ''jump'' example_camera
           = fire H Moveend ''jump'' c5"
    by (simp add: jumpTo_def Let_def stop_idle H_other set_zoom_def clamp_def c5_def)
  have k: "fire H Moveend ''jump'' c5
           = jumpTo quiet (no_options\<lparr>opt_zoom := Some 7\<rparr>) ''again''
               (c5\<lparr>fired := fired c5 @ [(Moveend, ''jump'')]\<rparr>)"
    by (simp add: fire_def H_def)
  have c: "getZoom (jumpTo H (no_options\<lparr>opt_zoom := Some 5\<rparr>) ''jump'' example_camera) = 7"
    unfolding j k
    by (simp add: jumpTo_def Let_def getZoom_def set_zoom_def clamp_def stop_idle c5_def)
  have d: "fired (jumpTo H (no_options\<lparr>opt_zoom := Some 5\<rparr>) ''jump'' example_camera) =
           [(Movestart, ''jump''), (Move, ''jump''), (Zoomstart, ''jump''),
            (Zoom, ''jump''), (Zoomend, ''jump''), (Moveend, ''jump''),
            (Movestart, ''again''), (Move, ''again''), (Zoomstart, ''again''),
            (Zoom, ''again''), (Zoomend, ''again''), (Moveend, ''again'')]"
    unfolding j k by (simp add: jumpTo_quiet_fired stop_idle c5_def)
  show ?thesis
    unfolding Let_def H_def[symmetric] using a b c d by (simp add: getZoom_def)
qed

text \<open>
  C4 (amended).  On a camera at zoom 0 whose Transform admits zoom 5 and whose listeners
  leave the camera as it is, \<open>jumpTo({zoom: 5})\<close> leaves the zoom at 5 and fires, after
  whatever \<open>stop\<close> fires for a session in progress (nothing on an idle camera), exactly
  movestart, move, zoomstart, zoom, zoomend, moveend, in this order; center, bearing and
  pitch keep their values; and with the current zoom as target no zoom event is fired.
\<close>

theorem jumpTo_zoom_5:
  assumes "zoom (transform c) = 0" and "minZoom (transform c) \<le> 5" and "5 \<le> maxZoom (transform c)"
  shows "getZoom (jumpTo quiet (no_options\<lparr>opt_zoom := Some 5\<rparr>) ed c) = 5
    \<and> fired (jumpTo quiet (no_options\<lparr>opt_zoom := Some 5\<rparr>) ed c) =
        fired (stop quiet c) @ map (\<lambda>e. (e, ed)) [Movestart, Move, Zoomstart, Zoom, Zoomend, Moveend]
    \<and> (\<not> isEasing c \<longrightarrow>
          fired (jumpTo quiet (no_options\<lparr>opt_zoom := Some 5\<rparr>) ed c) =
          fired c @ map (\<lambda>e. (e, ed)) [Movestart, Move, Zoomstart, Zoom, Zoomend, Moveend])
    \<and> getCenter (jumpTo quiet (no_options\<lparr>opt_zoom := Some 5\<rparr>) ed c) = getCenter c
    \<and> getBearing (jumpTo quiet (no_options\<lparr>opt_zoom := Some 5\<rparr>) ed c) = getBearing c
    \<and> getPitch (jumpTo quiet (no_options\<lparr>opt_zoom := Some 5\<rparr>) ed c) = getPitch c
    \<and> fired (jumpTo quiet (no_options\<lparr>opt_zoom := Some 0\<rparr>) ed c) =
        fired (stop quiet c) @ map (\<lambda>e. (e, ed)) [Movestart, Move, Moveend]"
  using assms
  by (simp add: jumpTo_def Let_def getZoom_def getCenter_def getBearing_def getPitch_def
      set_zoom_def clamp_id stop_def)

theorem jumpTo_zoom_5_witness:
  "zoom (transform example_camera) = 0 \<and> minZoom (transform example_camera) \<le> 5
   \<and> 5 \<le> maxZoom (transform example_camera) \<and> \<not> isEasing example_camera
   \<and> getZoom (jumpTo quiet (no_options\<lparr>opt_zoom := Some 5\<rparr>) ''jump'' example_camera) = 5
   \<and> fired (jumpTo quiet (no_options\<lparr>opt_zoom := Some 5\<rparr>) ''jump'' example_camera) =
       [(Movestart, ''jump''), (Move, ''jump''), (Zoomstart, ''jump''), (Zoom, ''jump''),
        (Zoomend, ''jump''), (Moveend, ''jump'')]"
  using jumpTo_zoom_5[of example_camera "''jump''"]
  by (simp add: stop_idle isEasing_def)

section \<open>Properties of the session life cycle\<close>

lemma easeTo_timer_fields:
  "nextTimer (easeTo g quiet opts ed c) = nextTimer (stop quiet c)"
  "onEaseEnd (easeTo g quiet opts ed c) = onEaseEnd (stop quiet c)"
  by (simp_all add: easeTo_eq)



text \<open>The events of one frame of a session whose closures carry the event data \<open>ed\<close>.\<close>

lemma run_frame_fields [simp]:
  "fired (run_frame g quiet fr k c) =
     fired c @ [(Move, frame_eventData fr)] @ (if zooming c then [(Zoom, frame_eventData fr)] else [])
       @ (if rotating c then [(Rotate, frame_eventData fr)] else [])
       @ (if pitching c then [(Pitch, frame_eventData fr)] else [])"
  "session (run_frame g quiet fr k c) = session c"
  "callbacks (run_frame g quiet fr k c) = callbacks c"
  "zooming (run_frame g quiet fr k c) = zooming c"
  "rotating (run_frame g quiet fr k c) = rotating c"
  "pitching (run_frame g quiet fr k c) = pitching c"
  "timers (run_frame g quiet fr k c) = timers c"
  by (cases fr; simp)+

lemma timed_callback_frame:
  assumes "map_of (callbacks c) n = Some cb" and "frame_eventData (t_frame cb) = ed" and "t \<noteq> 1"
  shows "\<exists>c1. timed_callback g quiet n t c = Completed c1
           \<and> fired c1 = fired c @ [(Move, ed)] @ (if zooming c then [(Zoom, ed)] else [])
               @ (if rotating c then [(Rotate, ed)] else []) @ (if pitching c then [(Pitch, ed)] else [])
           \<and> session c1 = session c \<and> callbacks c1 = callbacks c
           \<and> zooming c1 = zooming c \<and> rotating c1 = rotating c \<and> pitching c1 = pitching c
           \<and> timers c1 = timers c"
  using assms by (simp add: timed_callback_def Let_def)

lemma timed_callback_last:
  assumes "map_of (callbacks c) n = Some cb" and "frame_eventData (t_frame cb) = ed"
    and "session c = Some (m, fin)" and "\<not> deferred fin"
  shows "\<exists>c1. timed_callback g quiet n 1 c = Completed c1
           \<and> fired c1 = fired c @ [(Move, ed)] @ (if zooming c then [(Zoom, ed)] else [])
               @ (if rotating c then [(Rotate, ed)] else []) @ (if pitching c then [(Pitch, ed)] else [])
               @ (if zooming c then [(Zoomend, finish_eventData fin)] else [])
               @ (if pitching c then [(Pitchend, finish_eventData fin)] else [])
               @ [(Moveend, finish_eventData fin)]
           \<and> session c1 = None
           \<and> callbacks c1 = filter (\<lambda>cb. fst cb \<noteq> n) (callbacks c)"
  using assms
  by (cases fin; simp add: timed_callback_def Let_def finishEase_def isEasing_def)






section \<open>Properties of flyTo\<close>

lemma zoomScale_0 [simp]: "zoomScale 0 = 1"
  by (simp add: zoomScale_def)

lemma mag_zero [simp]: "mag \<lparr>px = 0, py = 0\<rparr> = 0"
  by (simp add: mag_def)

lemma mag_horizontal: "mag \<lparr>px = a, py = 0\<rparr> = \<bar>a\<bar>"
  by (simp add: mag_def)

lemma flyTo_path_no_travel:
  assumes "\<bar>flyTo_u1 g opts tr\<bar> < 0.000001"
  shows "flyTo_path g opts tr rho =
           (flyTo_w_zoom (if flyTo_w1 opts tr < flyTo_w0 tr then - 1 else 1) rho,
            (\<lambda>s. 0), \<bar>ln (flyTo_w1 opts tr / flyTo_w0 tr)\<bar> / rho)"
  unfolding flyTo_path_def Let_def using assms by (simp only: if_True)

lemma flyTo_path_travel:
  assumes "\<not> \<bar>flyTo_u1 g opts tr\<bar> < 0.000001"
  shows "flyTo_path g opts tr rho =
           (let r0 = flyTo_r (flyTo_w0 tr) (flyTo_w1 opts tr) (flyTo_u1 g opts tr) (rho * rho) 0
            in (flyTo_w r0 rho,
                flyTo_u (flyTo_w0 tr) (flyTo_u1 g opts tr) r0 rho (rho * rho),
                (flyTo_r (flyTo_w0 tr) (flyTo_w1 opts tr) (flyTo_u1 g opts tr) (rho * rho) 1 - r0)
                  / rho))"
  unfolding flyTo_path_def Let_def using assms by (simp only: if_False)

lemma flyTo_w_zoom_js_finite:
  "flyTo_w_zoom_js k (Finite rho) s = Finite (flyTo_w_zoom k rho s)"
  by (simp add: flyTo_w_zoom_js_def flyTo_w_zoom_def mult.commute mult.left_commute)

text \<open>
  What \<open>flyTo\<close> does without ground travel when \<open>rho\<close> is finite.  When the projected
  distance between the start and the target center is below \<open>0.000001\<close> and the initial and
  final spans differ by less than \<open>0.000001\<close> (in particular when the target zoom is the
  start zoom and the target projects onto the start), \<open>flyTo\<close> is \<open>easeTo\<close> called, after
  \<open>stop\<close>, with the same options (completed by the defaults of \<open>flyTo\<close>) and the same event
  data, and the camera it leaves is the one \<open>easeTo\<close> leaves for the caller's options: same
  session, duration and easing.  When only the distance is below the threshold and \<open>rho\<close>
  is finite and no divisor is zero, the callback registered flies \<open>w(s) = exp(k \<rho> s)\<close>
  with \<open>k = -1\<close> when zooming in and \<open>1\<close> otherwise, and \<open>u(s) = 0\<close>.
\<close>

lemma flyTo_no_travel:
  "(flyTo_zoom opts (transform c) = zoom (transform c)
        \<and> flyTo_delta g opts (transform c) = \<lparr>px = 0, py = 0\<rparr>
      \<longrightarrow> flyTo_too_short g opts (transform c))
   \<and> (flyTo_too_short g opts (transform c)
      \<longrightarrow> flyTo g quiet opts ed c = Completed (easeTo g quiet (flyTo_defaults g opts) ed (stop quiet c))
          \<and> flyTo g quiet opts ed c = Completed (easeTo g quiet opts ed c))
   \<and> (\<bar>flyTo_u1 g opts (transform c)\<bar> < 0.000001 \<and> \<not> flyTo_too_short g opts (transform c)
        \<and> flyTo_rho g opts (transform c) = Finite rho \<and> flyTo_divisors opts (transform c) rho
      \<longrightarrow> (\<exists>c2 cb cl. flyTo g quiet opts ed c = Completed c2
            \<and> callbacks c2 = callbacks (abort c) @ [(nextCallback c, cb)]
            \<and> t_frame cb = FlyFrame cl ed
            \<and> (\<forall>s. f_w cl s =
                  exp ((if flyTo_w1 opts (transform c) < flyTo_w0 (transform c) then - 1 else 1)
                       * rho * s))
            \<and> (\<forall>s. f_u cl s = 0)
            \<and> f_S cl = \<bar>ln (flyTo_w1 opts (transform c) / flyTo_w0 (transform c))\<bar> / rho))"
proof (intro conjI impI)
  assume "flyTo_zoom opts (transform c) = zoom (transform c)
        \<and> flyTo_delta g opts (transform c) = \<lparr>px = 0, py = 0\<rparr>"
  then show "flyTo_too_short g opts (transform c)"
    by (simp add: flyTo_too_short_def flyTo_u1_def flyTo_w1_def)
next
  assume "flyTo_too_short g opts (transform c)"
  then show "flyTo g quiet opts ed c = Completed (easeTo g quiet (flyTo_defaults g opts) ed (stop quiet c))"
    and "flyTo g quiet opts ed c = Completed (easeTo g quiet opts ed c)"
    by (rule flyTo_fallback)+
next
  assume a: "\<bar>flyTo_u1 g opts (transform c)\<bar> < 0.000001 \<and> \<not> flyTo_too_short g opts (transform c)
        \<and> flyTo_rho g opts (transform c) = Finite rho \<and> flyTo_divisors opts (transform c) rho"
  then have ns: "\<not> flyTo_too_short g opts (transform c)"
    and u: "\<bar>flyTo_u1 g (flyTo_defaults g opts) (transform c)\<bar> < 0.000001"
    and r: "flyTo_rho g opts (transform c) = Finite rho"
    and d: "flyTo_divisors opts (transform c) rho" by simp_all
  show "\<exists>c2 cb cl. flyTo g quiet opts ed c = Completed c2
            \<and> callbacks c2 = callbacks (abort c) @ [(nextCallback c, cb)]
            \<and> t_frame cb = FlyFrame cl ed
            \<and> (\<forall>s. f_w cl s =
                  exp ((if flyTo_w1 opts (transform c) < flyTo_w0 (transform c) then - 1 else 1)
                       * rho * s))
            \<and> (\<forall>s. f_u cl s = 0)
            \<and> f_S cl = \<bar>ln (flyTo_w1 opts (transform c) / flyTo_w0 (transform c))\<bar> / rho"
    by (simp add: flyTo_eq[OF ns r d] flyTo_path_no_travel[OF u] flyTo_w_zoom_def)
qed

lemma flat_geo_fields [simp]:
  "project flat_geo = flat_project"
  "unproject flat_geo = flat_unproject"
  "centerPoint flat_geo = flat_centerPoint"
  "pointLocation flat_geo = (\<lambda>tr p. flat_unproject tr
         (add (sub p (flat_centerPoint tr)) (flat_project tr (center tr))))"
  "util_ease flat_geo = (\<lambda>t. t)"
  by (simp_all add: flat_geo_def)

lemma example_scale [simp]: "scale example_transform = 1"
  by (simp add: scale_def)

lemma example_delta:
  assumes "opt_center opts = None" and "opt_offset opts = None"
  shows "flyTo_delta flat_geo opts example_transform = \<lparr>px = 0, py = 0\<rparr>"
  using assms
  by (simp add: flyTo_delta_def flyTo_from_def flyTo_pointAtOffset_def Let_def normalizeCenter_def
      flat_project_def flat_unproject_def flat_centerPoint_def add_def sub_def)

text \<open>
  C1 (the code diverges).  On the example camera, at zoom 0 on a 64 by 64 viewport,
  \<open>flyTo({zoom: 1, minZoom: 0})\<close> has no ground travel (\<open>u1 = 0\<close>) and spans that differ
  (\<open>w0 = 64\<close>, \<open>w1 = 32\<close>), so it does not hand over to \<open>easeTo\<close>.  With \<open>minZoom\<close> in the
  options \<open>rho\<close> is computed by a division by \<open>u1\<close>: it is \<open>Infinity\<close>, and the zoom curve
  \<open>exp(k \<rho> s)\<close> that replaces the hyperbolic one is NaN at \<open>s = 0\<close>, not an exponential
  zoom curve.
\<close>

theorem flyTo_minZoom_no_travel_not_finite:
  "(let opts = no_options\<lparr>opt_zoom := Some 1, opt_minZoom := Some 0\<rparr>;
        tr = transform example_camera
    in flyTo_u1 flat_geo opts tr = 0 \<and> flyTo_w0 tr = 64 \<and> flyTo_w1 opts tr = 32
       \<and> \<not> flyTo_too_short flat_geo opts tr
       \<and> flyTo_rho flat_geo opts tr = PosInfinity
       \<and> flyTo_w_zoom_js (if flyTo_w1 opts tr < flyTo_w0 tr then - 1 else 1)
           (flyTo_rho flat_geo opts tr) 0 = NaN
       \<and> flyTo flat_geo quiet opts ''fly'' example_camera = NonFinite)"
proof -
  define opts where "opts = no_options\<lparr>opt_zoom := Some 1, opt_minZoom := Some 0\<rparr>"
  have o: "opt_center opts = None" "opt_offset opts = None" "opt_zoom opts = Some 1"
    "opt_minZoom opts = Some 0"
    by (simp_all add: opts_def)
  have u: "flyTo_u1 flat_geo opts example_transform = 0"
    by (simp add: flyTo_u1_def example_delta[OF o(1,2)])
  have w0: "flyTo_w0 example_transform = 64" by (simp add: flyTo_w0_def)
  have z: "flyTo_zoom opts example_transform = 1" by (simp add: flyTo_zoom_def o)
  have w1: "flyTo_w1 opts example_transform = 32"
    by (simp add: flyTo_w1_def w0 z zoomScale_def)
  have ns: "\<not> flyTo_too_short flat_geo opts example_transform"
    by (simp add: flyTo_too_short_def u w0 w1)
  have rho: "flyTo_rho flat_geo opts example_transform = PosInfinity"
    by (simp add: flyTo_rho_def o u w0 z clamp_def Let_def divide_js_def)
  have nan: "flyTo_w_zoom_js (- 1) PosInfinity 0 = NaN"
    by (simp add: flyTo_w_zoom_js_def)
  have nf: "flyTo flat_geo quiet opts ''fly'' example_camera = NonFinite"
    by (rule flyTo_not_finite) (simp_all add: ns rho)
  show ?thesis
    unfolding Let_def opts_def[symmetric]
    using u w0 w1 ns rho nan nf by simp
qed

lemma timeout_due_fields:
  assumes "map_of (timers c) i = Some ed"
  shows "fired (timeout_due quiet i c) =
           fired c @ (if zooming c then [(Zoomend, ed)] else [])
             @ (if pitching c then [(Pitchend, ed)] else []) @ [(Moveend, ed)]"
    and "session (timeout_due quiet i c) = session c"
    and "callbacks (timeout_due quiet i c) = callbacks c"
    and "zooming (timeout_due quiet i c) = False"
    and "rotating (timeout_due quiet i c) = False"
    and "pitching (timeout_due quiet i c) = False"
  using assms by (simp_all add: timeout_due_def)

lemma example_delta_to:
  assumes "opt_center opts = Some \<lparr>lng = 112, lat = 0\<rparr>" and "opt_offset opts = None"
  shows "flyTo_delta flat_geo opts example_transform = \<lparr>px = 112, py = 0\<rparr>"
  using assms
  by (simp add: flyTo_delta_def flyTo_from_def flyTo_pointAtOffset_def Let_def normalizeCenter_def
      flat_project_def flat_unproject_def flat_centerPoint_def add_def sub_def)

lemma example_not_too_short:
  assumes "opt_center opts = Some \<lparr>lng = 112, lat = 0\<rparr>" and "opt_offset opts = None"
  shows "\<not> flyTo_too_short flat_geo opts example_transform"
  by (simp add: flyTo_too_short_def flyTo_u1_def example_delta_to[OF assms] mag_horizontal)

text \<open>
  C10 (the code diverges).  \<open>flyTo\<close> marks its session as zooming, but unlike \<open>easeTo\<close>
  it does not clear the timeout by which an \<open>easeTo\<close> session with \<open>delayEndEvents\<close> defers
  its end events.  An \<open>easeTo\<close> with \<open>delayEndEvents\<close> is in progress when \<open>flyTo\<close> is called
  for a target 112 degrees east: \<open>stop\<close> sets the timeout, and \<open>flyTo\<close> fires movestart and
  zoomstart and returns with the camera zooming and the timeout pending.  When the
  timeout comes due during the flight, \<open>_easeToEnd\<close> fires zoomend and moveend with the
  event data of the first session and resets the zooming flag; the frames of the flight
  then fire move without zoom, and the flight ends with moveend without zoomend.
\<close>

theorem flyTo_zooming_reset_by_deferred_end:
  "(let c1 = easeTo flat_geo quiet (no_options\<lparr>opt_zoom := Some 1, opt_delayEndEvents := Some 500\<rparr>)
               ''ease'' example_camera;
        opts = no_options\<lparr>opt_center := Some \<lparr>lng = 112, lat = 0\<rparr>\<rparr>
    in \<not> flyTo_too_short flat_geo opts (transform c1)
       \<and> (case flyTo flat_geo quiet opts ''fly'' c1 of
            Completed c2 \<Rightarrow>
              zooming c2 \<and> timers c2 = [(0, ''ease'')]
              \<and> fired c2 = [(Movestart, ''ease''), (Zoomstart, ''ease''),
                             (Movestart, ''fly''), (Zoomstart, ''fly'')]
              \<and> fired (timeout_due quiet 0 c2) = fired c2 @ [(Zoomend, ''ease''), (Moveend, ''ease'')]
              \<and> (case run_frames flat_geo quiet 1 [1 / 2, 1] (timeout_due quiet 0 c2) of
                    Completed c3 \<Rightarrow>
                      fired c3 = fired (timeout_due quiet 0 c2)
                        @ [(Move, ''fly''), (Move, ''fly''), (Moveend, ''fly'')]
                  | Thrown e c3 \<Rightarrow> False
                  | NonFinite \<Rightarrow> False)
          | Thrown e c2 \<Rightarrow> False
          | NonFinite \<Rightarrow> False))"
proof -
  define c1 where "c1 = easeTo flat_geo quiet
      (no_options\<lparr>opt_zoom := Some 1, opt_delayEndEvents := Some 500\<rparr>) ''ease'' example_camera"
  define opts where "opts = no_options\<lparr>opt_center := Some \<lparr>lng = 112, lat = 0\<rparr>\<rparr>"
  have o: "opt_center opts = Some \<lparr>lng = 112, lat = 0\<rparr>" "opt_offset opts = None"
    "opt_pitch opts = None" "opt_bearing opts = None" "opt_zoom opts = None"
    "opt_minZoom opts = None" "opt_curve opts = None" "opt_duration opts = None"
    "opt_screenSpeed opts = None" "opt_speed opts = None"
    by (simp_all add: opts_def)
  have s1: "session c1 = Some (0, EaseFinish ''ease'' (Some 500))" and n1: "nextCallback c1 = 1"
    and f1: "fired c1 = [(Movestart, ''ease''), (Zoomstart, ''ease'')]"
    and t1: "transform c1 = example_transform" "timers c1 = []" "nextTimer c1 = 0"
    unfolding c1_def
    by (simp_all add: easeTo_session easeTo_fired easeTo_flags easeTo_timers easeTo_timer_fields
        stop_idle)
  obtain cb1 where k1: "callbacks c1 = [(0, cb1)]"
    unfolding c1_def by (simp add: easeTo_session abort_idle)
  have d: "deferred (EaseFinish ''ease'' (Some 500))" by (simp add: truthy_def)
  note sd = stop_deferred[OF s1 d]
  have ns: "\<not> flyTo_too_short flat_geo opts (transform c1)"
    using example_not_too_short[OF o(1,2)] by (simp add: t1)
  have rho: "flyTo_rho flat_geo opts (transform c1) = Finite 1.42"
    by (simp add: flyTo_rho_def o)
  have dv: "flyTo_divisors opts (transform c1) 1.42"
    by (simp add: flyTo_divisors_def o t1 flyTo_w0_def)
  define c2 where "c2 = ease (FlyFrame (flyTo_closure flat_geo (flyTo_defaults flat_geo opts) (transform c1) 1.42) ''fly'') (FlyFinish ''fly'')
       (case opt_easing (flyTo_defaults flat_geo opts) of Some f \<Rightarrow> f | None \<Rightarrow> util_ease flat_geo)
       (flyTo_duration flat_geo (flyTo_defaults flat_geo opts) (transform c1) 1.42) (opt_animate opts)
       (prepareEase quiet ''fly'' False
          ((stop quiet c1)\<lparr>zooming := True,
              rotating := (bearing (transform c1) \<noteq>
                            (case opt_bearing opts of
                               Some b \<Rightarrow> normalizeBearing b (bearing (transform c1))
                             | None \<Rightarrow> bearing (transform c1))),
              pitching := ((case opt_pitch opts of Some v \<Rightarrow> v | None \<Rightarrow> pitch (transform c1))
                            \<noteq> pitch (transform c1))\<rparr>))"
  have fly: "flyTo flat_geo quiet opts ''fly'' c1 = Completed c2"
    unfolding c2_def by (rule flyTo_eq[OF ns rho dv])
  have z2: "zooming c2" "\<not> rotating c2" "\<not> pitching c2"
    and t2: "timers c2 = [(0, ''ease'')]"
    and f2: "fired c2 = [(Movestart, ''ease''), (Zoomstart, ''ease''),
                         (Movestart, ''fly''), (Zoomstart, ''fly'')]"
    and s2: "session c2 = Some (1, FlyFinish ''fly'')"
    unfolding c2_def by (simp_all add: o sd f1 t1 n1)
  obtain cb2 where k2: "callbacks c2 = [(1, cb2)]" and e2: "frame_eventData (t_frame cb2) = ''fly''"
    unfolding c2_def by (simp add: abort_callbacks[OF s1] k1 n1)
  define c3 where "c3 = timeout_due quiet 0 c2"
  have m: "map_of (timers c2) 0 = Some ''ease''" by (simp add: t2)
  note td = timeout_due_fields[OF m, folded c3_def]
  have f3: "fired c3 = fired c2 @ [(Zoomend, ''ease''), (Moveend, ''ease'')]"
    using td(1) z2 by simp
  have m3: "map_of (callbacks c3) 1 = Some cb2" by (simp add: td(3) k2)
  have half: "(1 / 2 :: real) \<noteq> 1" by simp
  obtain c4 where c4: "timed_callback flat_geo quiet 1 (1 / 2) c3 = Completed c4"
    and f4: "fired c4 = fired c3 @ [(Move, ''fly'')]"
    and k4: "callbacks c4 = callbacks c3" and s4: "session c4 = session c3"
    and z4: "\<not> zooming c4" "\<not> rotating c4" "\<not> pitching c4"
    using timed_callback_frame[OF m3 e2 half, of flat_geo] td(4,5,6) by auto
  have m4: "map_of (callbacks c4) 1 = Some cb2" by (simp add: k4 td(3) k2)
  have s4': "session c4 = Some (1, FlyFinish ''fly'')" by (simp add: s4 td(2) s2)
  have nd: "\<not> deferred (FlyFinish ''fly'')" by simp
  obtain c5 where c5: "timed_callback flat_geo quiet 1 1 c4 = Completed c5"
    and f5: "fired c5 = fired c4 @ [(Move, ''fly''), (Moveend, ''fly'')]"
    using timed_callback_last[OF m4 e2 s4' nd, of flat_geo] z4 by auto
  have rf: "run_frames flat_geo quiet 1 [1 / 2, 1] c3 = Completed c5"
    using c4 c5 by simp
  show ?thesis
    unfolding Let_def c1_def[symmetric] opts_def[symmetric] fly result.case c3_def[symmetric] rf
    using ns z2(1) t2 f2 f3 f5 f4 by simp
qed

section \<open>Properties of the flight path\<close>

lemma flyTo_cosh_cosh: "flyTo_cosh n = cosh n"
  by (simp add: flyTo_cosh_def cosh_def)

lemma flyTo_w_increasing:
  assumes "0 < rho" and "s1 \<le> s2" and "r0 + rho * s2 \<le> 0"
  shows "flyTo_w r0 rho s1 \<le> flyTo_w r0 rho s2"
proof -
  have le: "r0 + rho * s1 \<le> r0 + rho * s2" using assms(1,2) by simp
  then have "cosh (r0 + rho * s2) \<le> cosh (r0 + rho * s1)"
    using assms(3) by (simp add: cosh_real_nonpos_le_iff)
  moreover have "0 < cosh (r0 + rho * s2)" "0 \<le> cosh r0" by simp_all
  ultimately show ?thesis
    unfolding flyTo_w_def flyTo_cosh_cosh by (intro divide_left_mono) simp_all
qed

lemma flyTo_w_decreasing:
  assumes "0 < rho" and "s1 \<le> s2" and "0 \<le> r0 + rho * s1"
  shows "flyTo_w r0 rho s2 \<le> flyTo_w r0 rho s1"
proof -
  have le: "r0 + rho * s1 \<le> r0 + rho * s2" using assms(1,2) by simp
  then have "cosh (r0 + rho * s1) \<le> cosh (r0 + rho * s2)"
    using assms(3) by (simp add: cosh_real_nonneg_le_iff)
  moreover have "0 < cosh (r0 + rho * s1)" "0 \<le> cosh r0" by simp_all
  ultimately show ?thesis
    unfolding flyTo_w_def flyTo_cosh_cosh by (intro divide_left_mono) simp_all
qed

lemma flyTo_w_start: "flyTo_w r0 rho 0 = 1"
  by (simp add: flyTo_w_def flyTo_cosh_cosh)

lemma flyTo_w_peak:
  assumes "rho \<noteq> 0"
  shows "flyTo_w r0 rho s \<le> flyTo_w r0 rho (- r0 / rho)"
proof -
  have "cosh r0 / cosh (r0 + rho * s) \<le> cosh r0 / 1"
    by (intro divide_left_mono) (simp_all add: cosh_real_ge_1)
  then show ?thesis using assms by (simp add: flyTo_w_def flyTo_cosh_cosh)
qed

lemma flyTo_r_nonneg:
  assumes "w1 * w1 + rho2 * rho2 * u1 * u1 \<le> w0 * w0" and "0 < w0" and "0 < u1" and "0 < rho2"
  shows "0 \<le> flyTo_r w0 w1 u1 rho2 0"
proof -
  define b where "b = (w1 * w1 - w0 * w0 + 1 * rho2 * rho2 * u1 * u1) / (2 * w0 * rho2 * u1)"
  have "b \<le> 0" unfolding b_def using assms by (simp add: divide_le_0_iff)
  moreover have "1 \<le> sqrt (b * b + 1)" by simp
  ultimately have "1 \<le> sqrt (b * b + 1) - b" by linarith
  then have "0 \<le> ln (sqrt (b * b + 1) - b)" by simp
  then show ?thesis by (simp add: flyTo_r_def b_def Let_def)
qed

text \<open>
  C9 (amended).  On the hyperbolic path with \<open>\<rho> > 0\<close> the span
  \<open>w(s) = cosh(r0) / cosh(r0 + \<rho> s)\<close> starts at 1, does not decrease as long as
  \<open>r0 + \<rho> s \<le> 0\<close> (the ascent), does not increase once \<open>r0 + \<rho> s \<ge> 0\<close> (the descent),
  and is nowhere larger than at \<open>s = - r0 / \<rho>\<close>.  It is therefore monotonic over the whole
  path \<open>[0, S]\<close> when \<open>r0 \<ge> 0\<close> or when \<open>r0 + \<rho> S \<le> 0\<close>; the former is the case whenever
  \<open>w1\<^sup>2 + \<rho>\<^sup>4 u1\<^sup>2 \<le> w0\<^sup>2\<close>.
\<close>

theorem flyTo_w_unimodal:
  assumes "0 < rho"
  shows "flyTo_w r0 rho 0 = 1
    \<and> (\<forall>s. flyTo_w r0 rho s \<le> flyTo_w r0 rho (- r0 / rho))
    \<and> (\<forall>s1 s2. s1 \<le> s2 \<and> r0 + rho * s2 \<le> 0 \<longrightarrow> flyTo_w r0 rho s1 \<le> flyTo_w r0 rho s2)
    \<and> (\<forall>s1 s2. s1 \<le> s2 \<and> 0 \<le> r0 + rho * s1 \<longrightarrow> flyTo_w r0 rho s2 \<le> flyTo_w r0 rho s1)
    \<and> (0 \<le> r0 \<longrightarrow> (\<forall>s1 s2. 0 \<le> s1 \<and> s1 \<le> s2 \<longrightarrow> flyTo_w r0 rho s2 \<le> flyTo_w r0 rho s1))
    \<and> (r0 + rho * S \<le> 0 \<longrightarrow>
          (\<forall>s1 s2. s1 \<le> s2 \<and> s2 \<le> S \<longrightarrow> flyTo_w r0 rho s1 \<le> flyTo_w r0 rho s2))
    \<and> (w1 * w1 + (rho * rho) * (rho * rho) * u1 * u1 \<le> w0 * w0 \<and> 0 < w0 \<and> 0 < u1
          \<longrightarrow> 0 \<le> flyTo_r w0 w1 u1 (rho * rho) 0)"
proof (intro conjI allI impI)
  show "flyTo_w r0 rho 0 = 1" by (rule flyTo_w_start)
next
  fix s :: real show "flyTo_w r0 rho s \<le> flyTo_w r0 rho (- r0 / rho)"
    using assms by (intro flyTo_w_peak) simp
next
  fix s1 s2 :: real assume "s1 \<le> s2 \<and> r0 + rho * s2 \<le> 0"
  then show "flyTo_w r0 rho s1 \<le> flyTo_w r0 rho s2"
    using assms by (intro flyTo_w_increasing) simp_all
next
  fix s1 s2 :: real assume "s1 \<le> s2 \<and> 0 \<le> r0 + rho * s1"
  then show "flyTo_w r0 rho s2 \<le> flyTo_w r0 rho s1"
    using assms by (intro flyTo_w_decreasing) simp_all
next
  fix s1 s2 :: real assume r: "0 \<le> r0" and s: "0 \<le> s1 \<and> s1 \<le> s2"
  have "0 \<le> rho * s1" using assms s by simp
  then have "0 \<le> r0 + rho * s1" using r by linarith
  then show "flyTo_w r0 rho s2 \<le> flyTo_w r0 rho s1"
    using assms s by (intro flyTo_w_decreasing) simp_all
next
  fix s1 s2 :: real assume r: "r0 + rho * S \<le> 0" and s: "s1 \<le> s2 \<and> s2 \<le> S"
  have "rho * s2 \<le> rho * S" using assms s by simp
  then have "r0 + rho * s2 \<le> 0" using r by linarith
  then show "flyTo_w r0 rho s1 \<le> flyTo_w r0 rho s2"
    using assms s by (intro flyTo_w_increasing) simp_all
next
  assume "w1 * w1 + (rho * rho) * (rho * rho) * u1 * u1 \<le> w0 * w0 \<and> 0 < w0 \<and> 0 < u1"
  then show "0 \<le> flyTo_r w0 w1 u1 (rho * rho) 0"
    using assms by (intro flyTo_r_nonneg) simp_all
qed

lemma flyTo_cosh_ln: "0 < a \<Longrightarrow> flyTo_cosh (ln a) = (a + 1 / a) / 2"
  by (simp add: flyTo_cosh_def exp_minus inverse_eq_divide)

lemma sqrt_square: "0 \<le> y \<Longrightarrow> y * y = a \<Longrightarrow> sqrt a = y"
  by (metis abs_of_nonneg real_sqrt_abs2)

lemma example_r0: "flyTo_r 64 48 112 1 0 = ln (1 / 2)"
proof -
  have "sqrt ((3 / 4) * (3 / 4) + 1) = (5 / 4 :: real)"
    by (rule sqrt_square) simp_all
  then show ?thesis by (simp add: flyTo_r_def Let_def)
qed

lemma example_r1: "flyTo_r 64 48 112 1 1 = ln 3"
proof -
  have "sqrt ((4 / 3) * (4 / 3) + 1) = (5 / 3 :: real)"
    by (rule sqrt_square) simp_all
  then show ?thesis by (simp add: flyTo_r_def Let_def)
qed

lemma example_w_values:
  "flyTo_w (ln (1 / 2)) 1 0 = 1"
  "flyTo_w (ln (1 / 2)) 1 (ln 2) = 5 / 4"
  "flyTo_w (ln (1 / 2)) 1 (ln 3 - ln (1 / 2)) = 3 / 4"
proof -
  have c0: "flyTo_cosh (ln (1 / 2)) = 5 / 4" by (simp add: flyTo_cosh_ln)
  have c3: "flyTo_cosh (ln 3) = 5 / 3" by (simp add: flyTo_cosh_ln)
  have z: "ln (1 / 2) + ln 2 = (0::real)" by (simp add: ln_div)
  show "flyTo_w (ln (1 / 2)) 1 0 = 1" by (rule flyTo_w_start)
  show "flyTo_w (ln (1 / 2)) 1 (ln 2) = 5 / 4"
    unfolding flyTo_w_def by (simp only: mult_1 z c0) (simp add: flyTo_cosh_def)
  have "ln (1 / 2) + 1 * (ln 3 - ln (1 / 2)) = (ln 3 :: real)" by simp
  then show "flyTo_w (ln (1 / 2)) 1 (ln 3 - ln (1 / 2)) = 3 / 4"
    unfolding flyTo_w_def by (simp only: c0 c3) simp
qed

theorem flyTo_w_unimodal_witness:
  "(0::real) < 1
   \<and> 32 * 32 + (1 * 1) * (1 * 1) * 7 * 7 \<le> (64 * 64 :: real) \<and> (0::real) < 64 \<and> (0::real) < 7
   \<and> 0 \<le> flyTo_r 64 32 7 (1 * 1) 0
   \<and> flyTo_w (flyTo_r 64 32 7 (1 * 1) 0) 1 1 \<le> flyTo_w (flyTo_r 64 32 7 (1 * 1) 0) 1 0
   \<and> - 2 + 1 * 1 \<le> (0::real)
   \<and> flyTo_w (- 2) 1 0 \<le> flyTo_w (- 2) 1 1"
proof -
  note t1 = flyTo_w_unimodal[of 1 "flyTo_r 64 32 7 (1 * 1) 0" 0 32 7 64]
  note t2 = flyTo_w_unimodal[of 1 "- 2" 1 32 7 64]
  have r: "0 \<le> flyTo_r 64 32 7 (1 * 1) 0"
    using t1[THEN conjunct2, THEN conjunct2, THEN conjunct2, THEN conjunct2, THEN conjunct2,
        THEN conjunct2] by simp
  have a: "flyTo_w (flyTo_r 64 32 7 (1 * 1) 0) 1 1 \<le> flyTo_w (flyTo_r 64 32 7 (1 * 1) 0) 1 0"
    using t1[THEN conjunct2, THEN conjunct2, THEN conjunct2, THEN conjunct2, THEN conjunct1] r
    by simp
  have b: "flyTo_w (- 2) 1 0 \<le> flyTo_w (- 2) 1 1"
    using t2[THEN conjunct2, THEN conjunct2, THEN conjunct2, THEN conjunct2, THEN conjunct2,
        THEN conjunct1] by simp
  show ?thesis using r a b by simp
qed

lemma flyTo_path_defaults [simp]:
  "flyTo_path g (flyTo_defaults g opts) tr rho = flyTo_path g opts tr rho"
  unfolding flyTo_path_def by (simp only: flyTo_defaults_quantities)

text \<open>
  C9 (as stated, refuted).  On the 64 by 64 viewport at zoom 0, a flight with curve 1 to
  a center 112 pixels to the east and to the zoom \<open>log\<^sub>2 (4/3)\<close>, which is not the start
  zoom, takes the hyperbolic path of length \<open>S = ln 3 - ln (1/2)\<close>.  Along it the span
  first grows from \<open>w(0) = 1\<close> to \<open>w(ln 2) = 5/4\<close> and then shrinks to \<open>w(S) = 3/4\<close>: it is
  not monotonic over \<open>[0, S]\<close>.
\<close>

theorem flyTo_w_not_monotonic_counterexample:
  "(let opts = no_options\<lparr>opt_center := Some \<lparr>lng = 112, lat = 0\<rparr>,
                          opt_zoom := Some (log 2 (4 / 3)), opt_curve := Some 1\<rparr>;
        cl = flyTo_closure flat_geo (flyTo_defaults flat_geo opts) (transform example_camera) 1
    in flyTo_zoom opts (transform example_camera) \<noteq> zoom (transform example_camera)
       \<and> \<not> flyTo_too_short flat_geo opts (transform example_camera)
       \<and> flyTo_rho flat_geo opts (transform example_camera) = Finite 1
       \<and> map_option (\<lambda>c. map (\<lambda>cb. t_frame (snd cb)) (callbacks c))
           (completed (flyTo flat_geo quiet opts ''fly'' example_camera))
           = Some [FlyFrame cl ''fly'']
       \<and> f_w cl = flyTo_w (flyTo_r 64 48 112 1 0) 1
       \<and> f_S cl = ln 3 - ln (1 / 2)
       \<and> 0 \<le> ln (2::real) \<and> ln 2 \<le> f_S cl
       \<and> f_w cl 0 = 1 \<and> f_w cl (ln 2) = 5 / 4 \<and> f_w cl (f_S cl) = 3 / 4)"
proof -
  define opts where "opts = no_options\<lparr>opt_center := Some \<lparr>lng = 112, lat = 0\<rparr>,
                          opt_zoom := Some (log 2 (4 / 3)), opt_curve := Some 1\<rparr>"
  have o: "opt_center opts = Some \<lparr>lng = 112, lat = 0\<rparr>" "opt_offset opts = None"
    "opt_zoom opts = Some (log 2 (4 / 3))" "opt_curve opts = Some 1" "opt_minZoom opts = None"
    "opt_duration opts = None" "opt_screenSpeed opts = None" "opt_speed opts = None"
    by (simp_all add: opts_def)
  have ns: "\<not> flyTo_too_short flat_geo opts example_transform"
    by (rule example_not_too_short[OF o(1,2)])
  have ns': "\<not> flyTo_too_short flat_geo opts (transform example_camera)"
    using ns by simp
  have z: "flyTo_zoom opts example_transform = log 2 (4 / 3)"
    by (simp add: flyTo_zoom_def o)
  have "0 < log 2 (4 / 3 :: real)" by simp
  then have zne: "log 2 (4 / 3) \<noteq> (0::real)" by (rule less_imp_neq [THEN not_sym])
  have w0: "flyTo_w0 example_transform = 64" by (simp add: flyTo_w0_def)
  have w1: "flyTo_w1 opts example_transform = 48"
    by (simp add: flyTo_w1_def w0 z zoomScale_def)
  have u1: "flyTo_u1 flat_geo opts example_transform = 112"
    by (simp add: flyTo_u1_def example_delta_to[OF o(1,2)] mag_horizontal)
  have rho: "flyTo_rho flat_geo opts example_transform = Finite 1"
    by (simp add: flyTo_rho_def o)
  have rho': "flyTo_rho flat_geo opts (transform example_camera) = Finite 1"
    using rho by simp
  have dv: "flyTo_divisors opts (transform example_camera) 1"
    by (simp add: flyTo_divisors_def o w0)
  have nu: "\<not> \<bar>flyTo_u1 flat_geo opts example_transform\<bar> < 0.000001" by (simp add: u1)
  have path: "flyTo_path flat_geo opts example_transform 1 =
      (flyTo_w (flyTo_r 64 48 112 1 0) 1, flyTo_u 64 112 (flyTo_r 64 48 112 1 0) 1 1,
       ln 3 - ln (1 / 2))"
    unfolding flyTo_path_travel[OF nu] w0 w1 u1 Let_def
    by (simp only: mult_1 div_by_1 example_r0 example_r1)
  have ses: "map_option (\<lambda>c. map (\<lambda>cb. t_frame (snd cb)) (callbacks c))
           (completed (flyTo flat_geo quiet opts ''fly'' example_camera))
      = Some [FlyFrame (flyTo_closure flat_geo (flyTo_defaults flat_geo opts)
          (transform example_camera) 1) ''fly'']"
    by (simp add: flyTo_eq[OF ns' rho' dv] abort_idle)
  have fw: "f_w (flyTo_closure flat_geo (flyTo_defaults flat_geo opts) example_transform 1)
      = flyTo_w (flyTo_r 64 48 112 1 0) 1"
    and fS: "f_S (flyTo_closure flat_geo (flyTo_defaults flat_geo opts) example_transform 1)
      = ln 3 - ln (1 / 2)"
    by (simp_all add: path)
  have l: "0 \<le> ln (2::real)" "ln 2 \<le> ln 3 - ln (1 / 2 :: real)"
    by (simp_all add: ln_div)
  show ?thesis
    unfolding Let_def opts_def[symmetric]
    using ns z zne ses l example_w_values rho
    by (simp add: path example_r0)
qed

section \<open>Properties of fitBounds\<close>

lemma sorted_keys_four:
  "sorted_keys [(''top'', a), (''bottom'', b), (''right'', c), (''left'', d)]
     = [''bottom'', ''left'', ''right'', ''top'']"
  by (simp add: sorted_keys_def less_eq_char_def less_char_def)

lemma padding_keys_accepted:
  assumes "opt_padding opts = None \<or> opt_padding opts = Some (PaddingNumber p)"
  shows "sorted_keys (fitBounds_padding opts) = [''bottom'', ''left'', ''right'', ''top'']"
  using assms by (auto simp add: fitBounds_padding_def sorted_keys_four)

lemma padding_keys_rejected:
  assumes "opt_padding opts = Some (PaddingObject obj)"
    and "set (map fst obj) \<noteq> {''top'', ''bottom'', ''left'', ''right''}"
  shows "sorted_keys (fitBounds_padding opts) \<noteq> [''bottom'', ''left'', ''right'', ''top'']"
proof
  assume "sorted_keys (fitBounds_padding opts) = [''bottom'', ''left'', ''right'', ''top'']"
  then have "sort (map fst obj) = [''bottom'', ''left'', ''right'', ''top'']"
    using assms(1) by (simp add: fitBounds_padding_def sorted_keys_def)
  then have "set (sort (map fst obj)) = set [''bottom'', ''left'', ''right'', ''top'']"
    by (rule arg_cong)
  then have "set (map fst obj) = {''top'', ''bottom'', ''left'', ''right''}"
    by (simp only: set_sort) auto
  then show False using assms(2) by simp
qed

lemma warnOnce_fields [simp]:
  "transform (warnOnce msg c) = transform c"
  "fired (warnOnce msg c) = fired c"
  "session (warnOnce msg c) = session c"
  "callbacks (warnOnce msg c) = callbacks c"
  "timers (warnOnce msg c) = timers c"
  "moving (warnOnce msg c) = moving c"
  "zooming (warnOnce msg c) = zooming c"
  "rotating (warnOnce msg c) = rotating c"
  "pitching (warnOnce msg c) = pitching c"
  "warnings (warnOnce msg c) = (if msg \<in> set (warnings c) then warnings c else warnings c @ [msg])"
  by (simp_all add: warnOnce_def)

lemma warnOnce_twice: "warnOnce msg (warnOnce msg c) = warnOnce msg c"
  by (simp add: warnOnce_def)
text \<open>
  C6 (as stated, refuted).  A padding that is \<open>null\<close> or \<open>undefined\<close> is not a number and
  does not have the four keys, and \<open>fitBounds\<close> throws a TypeError on it: \<open>Object.keys\<close> is
  called before any test.
\<close>

theorem fitBounds_nullish_padding_counterexample:
  "(let bounds = \<lparr>sw = \<lparr>lng = - 10, lat = - 10\<rparr>, ne = \<lparr>lng = 10, lat = 10\<rparr>\<rparr>;
        opts = no_options\<lparr>opt_padding := Some PaddingNullish\<rparr>
    in sorted_keys (fitBounds_padding opts) \<noteq> [''bottom'', ''left'', ''right'', ''top'']
       \<and> fitBounds flat_geo quiet bounds opts ''fit'' example_camera
           = Thrown TypeError example_camera)"
  by (simp add: fitBounds_def Let_def fitBounds_padding_def sorted_keys_def)

text \<open>
  C6 (amended).  When the padding is an object whose keys are not exactly top, bottom,
  left and right, or when the keys are right but a computed scale is negative, \<open>fitBounds\<close>
  returns the camera it was given with at most the warning added, whatever the listeners:
  the Transform, the events fired, the session, the pending callbacks, the timeouts and
  the flags are untouched, no error is raised, and a warning already printed is not
  printed again.  A number or an absent padding passes the test of the keys.  When the
  padding is \<open>null\<close> or \<open>undefined\<close>, \<open>fitBounds\<close> throws a TypeError and leaves the camera
  as it was.
\<close>

theorem fitBounds_invalid_no_effect:
  "((\<exists>obj. opt_padding opts = Some (PaddingObject obj)
          \<and> set (map fst obj) \<noteq> {''top'', ''bottom'', ''left'', ''right''})
      \<longrightarrow> fitBounds g H bounds opts ed c = Completed (warnOnce padding_warning c))
   \<and> (sorted_keys (fitBounds_padding opts) = [''bottom'', ''left'', ''right'', ''top'']
        \<and> (lt (fitBounds_scaleY g bounds opts (transform c)) 0
             \<or> lt (fitBounds_scaleX g bounds opts (transform c)) 0)
      \<longrightarrow> fitBounds g H bounds opts ed c = Completed (warnOnce cannot_fit_warning c))
   \<and> (opt_padding opts = Some PaddingNullish
      \<longrightarrow> fitBounds g H bounds opts ed c = Thrown TypeError c)
   \<and> (opt_padding opts = None \<or> opt_padding opts = Some (PaddingNumber p)
      \<longrightarrow> sorted_keys (fitBounds_padding opts) = [''bottom'', ''left'', ''right'', ''top''])
   \<and> transform (warnOnce msg c) = transform c \<and> fired (warnOnce msg c) = fired c
   \<and> session (warnOnce msg c) = session c \<and> callbacks (warnOnce msg c) = callbacks c
   \<and> timers (warnOnce msg c) = timers c
   \<and> moving (warnOnce msg c) = moving c \<and> zooming (warnOnce msg c) = zooming c
   \<and> rotating (warnOnce msg c) = rotating c \<and> pitching (warnOnce msg c) = pitching c
   \<and> warnings (warnOnce msg c) = (if msg \<in> set (warnings c) then warnings c else warnings c @ [msg])
   \<and> warnOnce msg (warnOnce msg c) = warnOnce msg c"
proof -
  have 1: "fitBounds g H bounds opts ed c = Completed (warnOnce padding_warning c)"
    if "opt_padding opts = Some (PaddingObject obj)"
      "set (map fst obj) \<noteq> {''top'', ''bottom'', ''left'', ''right''}" for obj
    using padding_keys_rejected[OF that] that(1) by (simp add: fitBounds_def Let_def)
  have 2: "fitBounds g H bounds opts ed c = Completed (warnOnce cannot_fit_warning c)"
    if "sorted_keys (fitBounds_padding opts) = [''bottom'', ''left'', ''right'', ''top'']"
      "lt (fitBounds_scaleY g bounds opts (transform c)) 0
             \<or> lt (fitBounds_scaleX g bounds opts (transform c)) 0"
  proof -
    have "opt_padding opts \<noteq> Some PaddingNullish"
      using that(1) by (auto simp add: fitBounds_padding_def sorted_keys_def)
    then show ?thesis using that by (simp add: fitBounds_def Let_def)
  qed
  have 3: "fitBounds g H bounds opts ed c = Thrown TypeError c"
    if "opt_padding opts = Some PaddingNullish"
    using that by (simp add: fitBounds_def Let_def)
  show ?thesis
    using 1 2 3 padding_keys_accepted[of opts p] by (auto simp add: warnOnce_twice)
qed

theorem fitBounds_invalid_no_effect_witness:
  "(let bounds = \<lparr>sw = \<lparr>lng = - 10, lat = - 10\<rparr>, ne = \<lparr>lng = 10, lat = 10\<rparr>\<rparr>;
        bad_keys = no_options\<lparr>opt_padding := Some (PaddingObject [(''top'', 10)])\<rparr>;
        too_wide = no_options\<lparr>opt_padding := Some (PaddingNumber 40)\<rparr>
    in set (map fst [(''top'', 10 :: real)]) \<noteq> {''top'', ''bottom'', ''left'', ''right''}
       \<and> fitBounds flat_geo quiet bounds bad_keys ''fit'' example_camera
           = Completed (example_camera\<lparr>warnings := [padding_warning]\<rparr>)
       \<and> sorted_keys (fitBounds_padding too_wide) = [''bottom'', ''left'', ''right'', ''top'']
       \<and> lt (fitBounds_scaleX flat_geo bounds too_wide (transform example_camera)) 0
       \<and> fitBounds flat_geo quiet bounds too_wide ''fit'' example_camera
           = Completed (example_camera\<lparr>warnings := [cannot_fit_warning]\<rparr>))"
proof -
  define bounds where "bounds = \<lparr>sw = \<lparr>lng = - 10, lat = - 10\<rparr>, ne = \<lparr>lng = 10, lat = 10 :: real\<rparr>\<rparr>"
  define bad_keys where "bad_keys = no_options\<lparr>opt_padding := Some (PaddingObject [(''top'', 10)])\<rparr>"
  define too_wide where "too_wide = no_options\<lparr>opt_padding := Some (PaddingNumber 40)\<rparr>"
  have k: "set (map fst [(''top'', 10 :: real)]) \<noteq> {''top'', ''bottom'', ''left'', ''right''}"
    by auto
  have w: "warnOnce msg example_camera = example_camera\<lparr>warnings := [msg]\<rparr>" for msg
    by (simp add: warnOnce_def example_camera_def)
  have sx: "fitBounds_scaleX flat_geo bounds too_wide example_transform = Finite (- 16 / 20)"
    by (simp add: fitBounds_scaleX_def fitBounds_offset_def fitBounds_padding_def too_wide_def
        bounds_def property_def Let_def divide_js_def getSouthEast_def getNorthWest_def
        flat_project_def sub_def)
  have neg: "lt (fitBounds_scaleX flat_geo bounds too_wide (transform example_camera)) 0"
    by (simp add: sx)
  have ok: "sorted_keys (fitBounds_padding too_wide) = [''bottom'', ''left'', ''right'', ''top'']"
    by (rule padding_keys_accepted[of _ 40]) (simp add: too_wide_def)
  note t1 = fitBounds_invalid_no_effect[of bad_keys flat_geo quiet bounds "''fit''" example_camera]
  note t2 = fitBounds_invalid_no_effect[of too_wide flat_geo quiet bounds "''fit''" example_camera]
  have a: "fitBounds flat_geo quiet bounds bad_keys ''fit'' example_camera
           = Completed (example_camera\<lparr>warnings := [padding_warning]\<rparr>)"
    using t1[THEN conjunct1] k by (simp add: bad_keys_def w)
  have b: "fitBounds flat_geo quiet bounds too_wide ''fit'' example_camera
           = Completed (example_camera\<lparr>warnings := [cannot_fit_warning]\<rparr>)"
    using t2[THEN conjunct2, THEN conjunct1] ok neg by (simp add: w)
  show ?thesis
    unfolding Let_def bounds_def[symmetric] bad_keys_def[symmetric] too_wide_def[symmetric]
    using k a b ok neg by simp
qed


end
